theory Spec2Isabelle
  imports
    Main
    "HOL-Library.AList"
    "HOL-Library.Char_ord"
    "HOL-Library.List_Lexorder"
    "HOL-Library.Product_Lexorder"
begin

section \<open>Python values of \<^verbatim>\<open>msticpy/sectools/vtlookupv3.py\<close>\<close>

text \<open>
  The module is dynamically typed glue between three libraries: the VirusTotal client
  (\<^verbatim>\<open>vt.Client\<close>), pandas and the graph SDK (\<^verbatim>\<open>VTGraph\<close>). The embedding keeps the
  module's own control flow and models the libraries by what the module observes of them:
  the client answers requests (a parameter of every operation), pandas holds tables of
  named cells, the graph SDK records the calls made on it.
\<close>

datatype VTEntityType = FILE | DOMAIN | IP_ADDRESS | URL

fun VTEntityType_value :: "VTEntityType \<Rightarrow> string" where
  "VTEntityType_value FILE = ''file''"
| "VTEntityType_value DOMAIN = ''domain''"
| "VTEntityType_value IP_ADDRESS = ''ip_address''"
| "VTEntityType_value URL = ''url''"

fun VTEntityType_name :: "VTEntityType \<Rightarrow> string" where
  "VTEntityType_name FILE = ''FILE''"
| "VTEntityType_name DOMAIN = ''DOMAIN''"
| "VTEntityType_name IP_ADDRESS = ''IP_ADDRESS''"
| "VTEntityType_name URL = ''URL''"

text \<open>
  A dynamic value as it occurs in an argument or in a table cell: a missing cell
  (\<open>NaN\<close>), an integer, a string or a member of the enumeration.
\<close>

datatype pyval = NaN | Num int | Str string | Member VTEntityType

text \<open>
  The exceptions the module raises or lets through, by class. \<open>KeyError\<close> and
  \<open>Exception\<close> raised by the module carry the module's message; an exception raised
  inside a library carries a short description in place of the library's text, except the
  \<open>KeyError\<close> of a dictionary, whose argument is the missing key.
\<close>

datatype error = ValueError string | TypeError string | KeyError string | Exception string

definition bind_err :: "error + 'a \<Rightarrow> ('a \<Rightarrow> error + 'b) \<Rightarrow> error + 'b" where
  "bind_err r f = (case r of Inl e \<Rightarrow> Inl e | Inr x \<Rightarrow> f x)"

abbreviation ColumnNames_ID :: string where "ColumnNames_ID \<equiv> ''id''"
abbreviation ColumnNames_TYPE :: string where "ColumnNames_TYPE \<equiv> ''type''"
abbreviation ColumnNames_DETECTIONS :: string where "ColumnNames_DETECTIONS \<equiv> ''detections''"
abbreviation ColumnNames_SCANS :: string where "ColumnNames_SCANS \<equiv> ''scans''"
abbreviation ColumnNames_SOURCE :: string where "ColumnNames_SOURCE \<equiv> ''source''"
abbreviation ColumnNames_TARGET :: string where "ColumnNames_TARGET \<equiv> ''target''"
abbreviation ColumnNames_RELATIONSHIP_TYPE :: string where
  "ColumnNames_RELATIONSHIP_TYPE \<equiv> ''relationship_type''"
abbreviation ColumnNames_SOURCE_TYPE :: string where "ColumnNames_SOURCE_TYPE \<equiv> ''source_type''"
abbreviation ColumnNames_TARGET_TYPE :: string where "ColumnNames_TARGET_TYPE \<equiv> ''target_type''"

abbreviation LAST_ANALYSIS_STATS :: string where "LAST_ANALYSIS_STATS \<equiv> ''last_analysis_stats''"
abbreviation MALICIOUS :: string where "MALICIOUS \<equiv> ''malicious''"

text \<open>
  \<^verbatim>\<open>VTEntityType(x)\<close>: the enumeration's lookup by value. A member is returned as it is,
  one of the four value strings gives its member, anything else raises \<open>ValueError\<close>.
\<close>

fun VTEntityType_call :: "pyval \<Rightarrow> error + VTEntityType" where
  "VTEntityType_call (Member m) = Inr m"
| "VTEntityType_call (Str s) =
     (if s = ''file'' then Inr FILE
      else if s = ''domain'' then Inr DOMAIN
      else if s = ''ip_address'' then Inr IP_ADDRESS
      else if s = ''url'' then Inr URL
      else Inl (ValueError ''not a valid VTEntityType''))"
| "VTEntityType_call v = Inl (ValueError ''not a valid VTEntityType'')"

subsection \<open>Formatting a value into a string\<close>

text \<open>Python prints an integer in decimal, with a minus sign when it is negative.\<close>

fun decimal :: "nat \<Rightarrow> string" where
  "decimal n =
     (let units = ''0123456789'' ! (n mod 10)
      in if n div 10 = 0 then [units] else decimal (n div 10) @ [units])"

declare decimal.simps [simp del]

definition string_of_int :: "int \<Rightarrow> string" where
  "string_of_int i = (if i < 0 then CHR ''-'' # decimal (nat (- i)) else decimal (nat i))"

text \<open>What an f-string puts in place of \<^verbatim>\<open>{x}\<close>.\<close>

fun py_format :: "pyval \<Rightarrow> string" where
  "py_format (Str s) = s"
| "py_format (Num n) = string_of_int n"
| "py_format NaN = ''nan''"
| "py_format (Member m) = ''VTEntityType.'' @ VTEntityType_name m"

section \<open>Class constants\<close>

definition SUPPORTED_VT_TYPES :: "VTEntityType set" where
  "SUPPORTED_VT_TYPES = {FILE, URL, IP_ADDRESS, DOMAIN}"

text \<open>The two dictionaries are keyed by all four members, so a lookup in them cannot fail.\<close>

fun MAPPING_TYPES_ENDPOINT :: "VTEntityType \<Rightarrow> string" where
  "MAPPING_TYPES_ENDPOINT FILE = ''files''"
| "MAPPING_TYPES_ENDPOINT URL = ''urls''"
| "MAPPING_TYPES_ENDPOINT IP_ADDRESS = ''ip_addresses''"
| "MAPPING_TYPES_ENDPOINT DOMAIN = ''domains''"

text \<open>
  The values of \<^verbatim>\<open>_BASIC_PROPERTIES_PER_TYPE\<close> are Python sets; the lists below give
  them in the order of the source text. The order in which Python iterates over a set
  of strings is not fixed, so nothing below depends on the order of the columns.
\<close>

fun BASIC_PROPERTIES_PER_TYPE :: "VTEntityType \<Rightarrow> string list" where
  "BASIC_PROPERTIES_PER_TYPE FILE =
     [''type_description'', ''size'', ''first_submission_date'', ''last_submission_date'',
      ''times_submitted'', ''meaningful_name'']"
| "BASIC_PROPERTIES_PER_TYPE URL =
     [''first_submission_date'', ''last_submission_date'', ''times_submitted'']"
| "BASIC_PROPERTIES_PER_TYPE IP_ADDRESS = [''date'', ''country'', ''asn'', ''as_owner'']"
| "BASIC_PROPERTIES_PER_TYPE DOMAIN = [''id'', ''creation_date'', ''last_update_date'', ''country'']"

definition supported_vt_types :: "VTEntityType set" where
  "supported_vt_types = SUPPORTED_VT_TYPES"

definition not_supported_msg :: "pyval \<Rightarrow> string" where
  "not_supported_msg vt_type = ''Property type '' @ py_format vt_type @ '' not supported''"

definition get_endpoint_name :: "pyval \<Rightarrow> error + string" where
  "get_endpoint_name vt_type =
     bind_err (VTEntityType_call vt_type) (\<lambda>t.
       if t \<notin> SUPPORTED_VT_TYPES then Inl (KeyError (not_supported_msg vt_type))
       else bind_err (VTEntityType_call vt_type) (\<lambda>t'. Inr (MAPPING_TYPES_ENDPOINT t')))"

section \<open>Tables\<close>

text \<open>
  A pandas \<^verbatim>\<open>DataFrame\<close> as the module uses it: the names of the index levels, the names
  of the columns, and the rows. A row gives its cells by name, for the index levels and
  for the columns alike; a name without a cell in a row is a missing value. An empty list
  of index names is the default positional index.
\<close>

type_synonym row = "(string \<times> pyval) list"

record dataframe =
  index_names :: "string list"
  columns :: "string list"
  rows :: "row list"

definition cell :: "row \<Rightarrow> string \<Rightarrow> pyval" where
  "cell r c = (case map_of r c of None \<Rightarrow> NaN | Some v \<Rightarrow> v)"

text \<open>\<^verbatim>\<open>pd.DataFrame()\<close>\<close>

definition pd_DataFrame_empty :: dataframe where
  "pd_DataFrame_empty = \<lparr>index_names = [], columns = [], rows = []\<rparr>"

text \<open>\<^verbatim>\<open>pd.DataFrame(data=[[...]], columns=[...])\<close>: one row, given by position.\<close>

definition pd_DataFrame_data :: "pyval list \<Rightarrow> string list \<Rightarrow> dataframe" where
  "pd_DataFrame_data vs cs = \<lparr>index_names = [], columns = cs, rows = [zip cs vs]\<rparr>"

text \<open>\<^verbatim>\<open>df[c] = v\<close> for a scalar \<open>v\<close>: the column is replaced or added, every row gets \<open>v\<close>.\<close>

definition set_column :: "dataframe \<Rightarrow> string \<Rightarrow> pyval \<Rightarrow> dataframe" where
  "set_column df c v =
     df\<lparr>columns := (if c \<in> set (columns df) then columns df else columns df @ [c]),
        rows := map (AList.update c v) (rows df)\<rparr>"

text \<open>
  \<^verbatim>\<open>df[c] = [v1, ..., vn]\<close>: a frame without rows takes the \<open>n\<close> values as its rows;
  a frame with \<open>n\<close> rows gets one value per row; any other length raises \<open>ValueError\<close>.
\<close>

definition set_column_list :: "dataframe \<Rightarrow> string \<Rightarrow> pyval list \<Rightarrow> error + dataframe" where
  "set_column_list df c vs =
     (let cs = (if c \<in> set (columns df) then columns df else columns df @ [c]) in
      if rows df = [] \<and> vs \<noteq> [] then Inr (df\<lparr>columns := cs, rows := map (\<lambda>v. [(c, v)]) vs\<rparr>)
      else if length vs = length (rows df)
        then Inr (df\<lparr>columns := cs, rows := map (\<lambda>(r, v). AList.update c v r) (zip (rows df) vs)\<rparr>)
      else Inl (ValueError ''Length of values does not match length of index''))"

text \<open>
  \<^verbatim>\<open>df.set_index(keys)\<close>: the key columns become the index levels and the old index is
  dropped with its cells. A key that is not a column raises \<open>KeyError\<close>.
\<close>

definition set_index :: "dataframe \<Rightarrow> string list \<Rightarrow> error + dataframe" where
  "set_index df keys =
     (case find (\<lambda>k. k \<notin> set (columns df)) keys of
        Some k \<Rightarrow> Inl (KeyError k)
      | None \<Rightarrow> Inr \<lparr>index_names = keys,
                     columns = filter (\<lambda>c. c \<notin> set keys) (columns df),
                     rows = map (filter (\<lambda>(k, v). k \<in> set (columns df))) (rows df)\<rparr>)"

text \<open>
  \<^verbatim>\<open>df.reset_index()\<close>: the index levels become the first columns. The default
  positional index becomes a column \<^verbatim>\<open>index\<close> (\<^verbatim>\<open>level_0\<close> when \<^verbatim>\<open>index\<close> is taken)
  holding the positions. A name that is already a column raises \<open>ValueError\<close>.
\<close>

definition reset_index :: "dataframe \<Rightarrow> error + dataframe" where
  "reset_index df =
     (if index_names df = [] then
        (let n = (if ''index'' \<in> set (columns df) then ''level_0'' else ''index'') in
         if n \<in> set (columns df) then Inl (ValueError ''cannot insert, already exists'')
         else Inr \<lparr>index_names = [], columns = n # columns df,
                   rows = map (\<lambda>(i, r). AList.update n (Num (int i)) r)
                              (zip [0..<length (rows df)] (rows df))\<rparr>)
      else if \<not> distinct (index_names df) \<or> (\<exists>k \<in> set (index_names df). k \<in> set (columns df))
        then Inl (ValueError ''cannot insert, already exists'')
      else Inr \<lparr>index_names = [], columns = index_names df @ columns df, rows = rows df\<rparr>)"

text \<open>The names of a list, each once, in the order of their first appearance.\<close>

definition unique_names :: "string list \<Rightarrow> string list" where
  "unique_names cs = rev (remdups (rev cs))"

text \<open>
  \<^verbatim>\<open>pd.concat(dfs)\<close>. A frame with neither rows nor columns is left out, unless every
  frame is such a frame. Of the frames that remain, the rows come one frame after the
  other and the columns are united in the order of their first appearance; the index keeps
  its names when all of them agree on the names, and is nameless otherwise. (The module
  never calls \<^verbatim>\<open>pd.concat\<close> on an empty list.)
\<close>

definition pd_concat :: "dataframe list \<Rightarrow> dataframe" where
  "pd_concat dfs =
     (let non_empties = filter (\<lambda>d. rows d \<noteq> [] \<or> columns d \<noteq> []) dfs;
          objs = (if non_empties \<noteq> [] then non_empties else dfs)
      in \<lparr>index_names = (case objs of [] \<Rightarrow> []
                           | d # ds \<Rightarrow> if \<forall>d' \<in> set ds. index_names d' = index_names d
                                       then index_names d else []),
            columns = unique_names (concat (map columns objs)),
            rows = concat (map rows objs)\<rparr>)"

text \<open>\<^verbatim>\<open>df[c]\<close> read as a sequence of cells.\<close>

definition column_values :: "dataframe \<Rightarrow> string \<Rightarrow> pyval list" where
  "column_values df c = map (\<lambda>r. cell r c) (rows df)"

text \<open>\<^verbatim>\<open>df.rename(columns={...})\<close>\<close>

definition rename_name :: "(string \<times> string) list \<Rightarrow> string \<Rightarrow> string" where
  "rename_name m c = (case map_of m c of None \<Rightarrow> c | Some c' \<Rightarrow> c')"

definition rename_columns :: "dataframe \<Rightarrow> (string \<times> string) list \<Rightarrow> dataframe" where
  "rename_columns df m =
     df\<lparr>columns := map (rename_name m) (columns df),
        rows := map (map (\<lambda>(k, v). (if k \<in> set (columns df) then rename_name m k else k, v)))
                    (rows df)\<rparr>"

section \<open>Objects of the VirusTotal client\<close>

text \<open>
  Attribute values as JSON: integers, strings and nested objects (a Python dictionary,
  as the list of its items in insertion order).
\<close>

datatype json = JNum int | JStr string | JObj "(string \<times> json) list"

text \<open>
  A \<^verbatim>\<open>vt.object.Object\<close> as the module reads it: \<^verbatim>\<open>id\<close>, \<^verbatim>\<open>type\<close>, the
  \<^verbatim>\<open>attributes\<close> entry of \<^verbatim>\<open>to_dict()\<close> (\<open>None\<close> when the entry is absent) and
  \<^verbatim>\<open>relationships\<close> (\<open>None\<close> when reading it raises). For each relationship name the
  metadata gives \<^verbatim>\<open>['meta']['count']\<close>, or \<open>None\<close> when that path is missing.
\<close>

record vt_object =
  obj_id :: string
  obj_type :: string
  attributes :: "(string \<times> json) list option"
  relationships :: "(string \<times> int option) list option"

fun json_scalar :: "json \<Rightarrow> pyval" where
  "json_scalar (JNum n) = Num n"
| "json_scalar (JStr s) = Str s"
| "json_scalar (JObj d) = NaN"

fun is_JObj :: "json \<Rightarrow> bool" where
  "is_JObj (JObj d) = True"
| "is_JObj v = False"

text \<open>
  \<^verbatim>\<open>pd.json_normalize(data=[obj])\<close>: one row; a nested object is replaced by one column
  per leaf, named by the path of keys joined with dots.
\<close>

fun flatten_json :: "string \<Rightarrow> json \<Rightarrow> row" where
  "flatten_json k (JNum n) = [(k, Num n)]"
| "flatten_json k (JStr s) = [(k, Str s)]"
| "flatten_json k (JObj d) = concat (map (\<lambda>p. flatten_json (k @ ''.'' @ fst p) (snd p)) d)"

definition dict_update :: "row \<Rightarrow> row \<Rightarrow> row" where
  "dict_update r new = fold (\<lambda>(k, v). AList.update k v) new r"

definition json_normalize :: "(string \<times> json) list \<Rightarrow> dataframe" where
  "json_normalize obj =
     (let scalars = map (\<lambda>(k, v). (k, json_scalar v)) (filter (\<lambda>(k, v). \<not> is_JObj v) obj);
          nested = concat (map (\<lambda>(k, v). flatten_json k v) (filter (\<lambda>(k, v). is_JObj v) obj));
          r = dict_update scalars nested
      in \<lparr>index_names = [], columns = map fst r, rows = [r]\<rparr>)"

text \<open>\<^verbatim>\<open>sum(d.values())\<close>: defined when every value is a number.\<close>

fun sum_values :: "(string \<times> json) list \<Rightarrow> int option" where
  "sum_values [] = Some 0"
| "sum_values ((k, JNum n) # d) = map_option (\<lambda>s. n + s) (sum_values d)"
| "sum_values ((k, v) # d) = None"

text \<open>
  The first half of \<^verbatim>\<open>_parse_vt_object\<close>, up to the comment ``Inject ID and Type
  columns'': the frame built from the attributes, or the empty frame when \<^verbatim>\<open>to_dict()\<close>
  has no \<^verbatim>\<open>attributes\<close> entry.
\<close>

definition parse_attributes :: "vt_object \<Rightarrow> error + dataframe" where
  "parse_attributes vt_obj =
     (case attributes vt_obj of
        Some attrs \<Rightarrow>
          bind_err (VTEntityType_call (Str (obj_type vt_obj))) (\<lambda>vt_type.
            if vt_type \<notin> SUPPORTED_VT_TYPES
              then Inl (KeyError (not_supported_msg (Member vt_type)))
            else
              let obj = List.map_filter (\<lambda>key. map_option (Pair key) (map_of attrs key))
                          (BASIC_PROPERTIES_PER_TYPE vt_type);
                  df = json_normalize obj
              in case map_of attrs LAST_ANALYSIS_STATS of
                   None \<Rightarrow> Inl (KeyError LAST_ANALYSIS_STATS)
                 | Some (JObj last_analysis_stats) \<Rightarrow>
                     (case map_of last_analysis_stats MALICIOUS of
                        None \<Rightarrow> Inl (KeyError MALICIOUS)
                      | Some (JObj m) \<Rightarrow> Inl (TypeError ''unsupported operand type'')
                      | Some m \<Rightarrow>
                          let df1 = set_column df ColumnNames_DETECTIONS (json_scalar m) in
                          (case sum_values last_analysis_stats of
                             None \<Rightarrow> Inl (TypeError ''unsupported operand type'')
                           | Some scans \<Rightarrow> Inr (set_column df1 ColumnNames_SCANS (Num scans))))
                 | Some v \<Rightarrow> Inl (TypeError ''indices must be integers''))
      | None \<Rightarrow> Inr pd_DataFrame_empty)"

definition parse_vt_object :: "vt_object \<Rightarrow> error + dataframe" where
  "parse_vt_object vt_obj =
     bind_err (parse_attributes vt_obj) (\<lambda>df.
       bind_err (set_column_list df ColumnNames_ID [Str (obj_id vt_obj)]) (\<lambda>df2.
       bind_err (set_column_list df2 ColumnNames_TYPE [Str (obj_type vt_obj)]) (\<lambda>df3.
         set_index df3 [ColumnNames_ID])))"

section \<open>The client and its transport\<close>

text \<open>
  The state of \<^verbatim>\<open>self._vt_client\<close>: whether \<^verbatim>\<open>close()\<close> has been called on it, and the
  requests issued so far, oldest first. \<^verbatim>\<open>self._vt_key\<close> is kept with it.
\<close>

datatype request = GetObject string | Iterator string nat int

record vt_client =
  vt_key :: string
  closed :: bool
  requests :: "request list"

text \<open>
  The remote side is a parameter: what \<^verbatim>\<open>get_object\<close> and \<^verbatim>\<open>iterator\<close> answer, given
  the state of the client at the call (so an answer may depend on the connection being
  closed and on the requests made before). \<open>None\<close> is any exception; for the iterator it
  covers an exception at any point of the iteration.
\<close>

record backend =
  get_object :: "vt_client \<Rightarrow> string \<Rightarrow> vt_object option"
  iterator :: "vt_client \<Rightarrow> string \<Rightarrow> nat \<Rightarrow> int \<Rightarrow> vt_object list option"

definition client_get_object :: "backend \<Rightarrow> vt_client \<Rightarrow> string \<Rightarrow> vt_client \<times> vt_object option" where
  "client_get_object be c path = (c\<lparr>requests := requests c @ [GetObject path]\<rparr>, get_object be c path)"

definition client_iterator ::
  "backend \<Rightarrow> vt_client \<Rightarrow> string \<Rightarrow> nat \<Rightarrow> int \<Rightarrow> vt_client \<times> vt_object list option" where
  "client_iterator be c path batch_size limit =
     (c\<lparr>requests := requests c @ [Iterator path batch_size limit]\<rparr>,
      iterator be c path batch_size limit)"

definition client_close :: "vt_client \<Rightarrow> vt_client" where
  "client_close c = c\<lparr>closed := True\<rparr>"

text \<open>\<^verbatim>\<open>VTLookupV3(vt_key)\<close>\<close>

definition init :: "string \<Rightarrow> vt_client" where
  "init key = \<lparr>vt_key = key, closed = False, requests = []\<rparr>"

section \<open>Single lookup\<close>

abbreviation no_data_msg :: string where
  "no_data_msg \<equiv> ''It was not possible to get the data''"

definition lookup_ioc :: "backend \<Rightarrow> vt_client \<Rightarrow> pyval \<Rightarrow> pyval \<Rightarrow> vt_client \<times> (error + dataframe)" where
  "lookup_ioc be c observable vt_type =
     (case VTEntityType_call vt_type of
        Inl e \<Rightarrow> (c, Inl e)
      | Inr t \<Rightarrow>
          if t \<notin> supported_vt_types then (c, Inl (KeyError (not_supported_msg vt_type)))
          else
            (case get_endpoint_name (Member t) of
               Inl e \<Rightarrow> (c, Inl e)
             | Inr endpoint_name \<Rightarrow>
                 let (c1, response) =
                       client_get_object be c (''/'' @ endpoint_name @ ''/'' @ py_format observable);
                     result =
                       (case response of
                          None \<Rightarrow> Inl (Exception no_data_msg)
                        | Some vt_obj \<Rightarrow>
                            (case parse_vt_object vt_obj of
                               Inl e \<Rightarrow> Inl (Exception no_data_msg)
                             | Inr df \<Rightarrow> Inr df))
                 in (client_close c1, result)))"

section \<open>Batch lookup\<close>

text \<open>
  The row put in place of a failed lookup:
  \<^verbatim>\<open>pd.DataFrame(data=[[observable, observable_type]], columns=[ID, TYPE]).set_index(ID)\<close>.
  \<^verbatim>\<open>set_index\<close> cannot fail here, since \<^verbatim>\<open>id\<close> is one of the two columns.
\<close>

definition stub_frame :: "pyval \<Rightarrow> pyval \<Rightarrow> dataframe" where
  "stub_frame observable observable_type =
     (case set_index (pd_DataFrame_data [observable, observable_type]
                        [ColumnNames_ID, ColumnNames_TYPE]) [ColumnNames_ID] of
        Inr df \<Rightarrow> df
      | Inl e \<Rightarrow> pd_DataFrame_empty)"

text \<open>
  One turn of the loop of \<^verbatim>\<open>lookup_iocs\<close>, on the client and the list \<^verbatim>\<open>dfs\<close>. The
  bare \<^verbatim>\<open>except\<close> catches every exception of \<^verbatim>\<open>lookup_ioc\<close>; the message it prints is
  not modelled.
\<close>

definition lookup_iocs_step ::
  "backend \<Rightarrow> vt_client \<times> dataframe list \<Rightarrow> pyval \<times> pyval \<Rightarrow> vt_client \<times> dataframe list" where
  "lookup_iocs_step be s p =
     (case s of (c, dfs) \<Rightarrow>
      case p of (observable, observable_type) \<Rightarrow>
        (case lookup_ioc be c observable observable_type of
           (c', Inr df) \<Rightarrow> (c', dfs @ [df])
         | (c', Inl e) \<Rightarrow> (c', dfs @ [stub_frame observable observable_type])))"

definition lookup_iocs_loop ::
  "backend \<Rightarrow> vt_client \<times> dataframe list \<Rightarrow> (pyval \<times> pyval) list \<Rightarrow> vt_client \<times> dataframe list" where
  "lookup_iocs_loop be s items = foldl (lookup_iocs_step be) s items"

definition column_not_found_msg :: "string \<Rightarrow> string" where
  "column_not_found_msg column = ''Column '' @ column @ '' not found in observables_df''"

definition lookup_iocs ::
  "backend \<Rightarrow> vt_client \<Rightarrow> dataframe \<Rightarrow> string \<Rightarrow> string \<Rightarrow> vt_client \<times> (error + dataframe)" where
  "lookup_iocs be c observables_df observable_column observable_type_column =
     (case reset_index observables_df of
        Inl e \<Rightarrow> (c, Inl e)
      | Inr observables_df' \<Rightarrow>
          (case find (\<lambda>column. column \<notin> set (columns observables_df'))
                  [observable_column, observable_type_column] of
             Some column \<Rightarrow> (c, Inl (KeyError (column_not_found_msg column)))
           | None \<Rightarrow>
               let observables_list = column_values observables_df' observable_column;
                   types_list = column_values observables_df' observable_type_column;
                   (c', dfs) = lookup_iocs_loop be (c, []) (zip observables_list types_list)
               in (c', Inr (if length dfs > 0 then pd_concat dfs else pd_DataFrame_empty))))"

section \<open>Relationship lookup\<close>

text \<open>
  The body of the first \<^verbatim>\<open>try\<close> of \<^verbatim>\<open>lookup_ioc_relationships\<close>, after the fetch: the
  count the server reports for the relationship, \<open>0\<close> when the relationship is not among
  the reported ones, \<open>None\<close> when an exception is raised (the fetch failed, or the
  metadata could not be read).
\<close>

definition relationship_limit :: "vt_object option \<Rightarrow> string \<Rightarrow> int option" where
  "relationship_limit response relationship =
     (case response of
        None \<Rightarrow> None
      | Some vt_obj \<Rightarrow>
          (case relationships vt_obj of
             None \<Rightarrow> None
           | Some rels \<Rightarrow>
               (case map_of rels relationship of
                  None \<Rightarrow> Some 0
                | Some None \<Rightarrow> None
                | Some (Some n) \<Rightarrow> Some n)))"

text \<open>\<^verbatim>\<open>[self._parse_vt_object(r) for r in response]\<close>: the first failure ends the comprehension.\<close>

fun parse_all :: "vt_object list \<Rightarrow> error + dataframe list" where
  "parse_all [] = Inr []"
| "parse_all (r # rs) =
     bind_err (parse_vt_object r) (\<lambda>df. bind_err (parse_all rs) (\<lambda>dfs. Inr (df # dfs)))"

text \<open>
  The table built from the parsed objects inside the second \<^verbatim>\<open>try\<close> of
  \<^verbatim>\<open>lookup_ioc_relationships\<close>: their concatenation, stamped with the source, its kind
  and the relationship name and keyed by (source, target); the empty frame when there is
  no object.
\<close>

definition relationships_frame ::
  "dataframe list \<Rightarrow> pyval \<Rightarrow> VTEntityType \<Rightarrow> string \<Rightarrow> error + dataframe" where
  "relationships_frame objects observable t relationship =
     (let df = (if length objects > 0 then pd_concat objects else pd_DataFrame_empty)
      in if length objects > 0 then
           let df1 = set_column df ColumnNames_SOURCE observable;
               df2 = set_column df1 ColumnNames_SOURCE_TYPE (Str (VTEntityType_value t));
               df3 = set_column df2 ColumnNames_RELATIONSHIP_TYPE (Str relationship)
           in bind_err (reset_index df3) (\<lambda>df4.
                set_index
                  (rename_columns df4 [(ColumnNames_ID, ColumnNames_TARGET),
                                       (ColumnNames_TYPE, ColumnNames_TARGET_TYPE)])
                  [ColumnNames_SOURCE, ColumnNames_TARGET])
         else Inr df)"

text \<open>
  The second half of \<^verbatim>\<open>lookup_ioc_relationships\<close>, from the test of the limit on, with
  the limit resolved.
\<close>

definition fetch_relationships ::
  "backend \<Rightarrow> vt_client \<Rightarrow> string \<Rightarrow> pyval \<Rightarrow> VTEntityType \<Rightarrow> string \<Rightarrow> int
     \<Rightarrow> vt_client \<times> (error + dataframe)" where
  "fetch_relationships be c endpoint_name observable t relationship limit =
     (if limit = 0 then (c, Inr pd_DataFrame_empty)
      else
        let (c1, response) =
              client_iterator be c
                (''/'' @ endpoint_name @ ''/'' @ py_format observable @ ''/relationships/'' @ relationship)
                40 limit;
            result =
              (case response of
                 None \<Rightarrow> Inl (Exception no_data_msg)
               | Some rs \<Rightarrow>
                   (case bind_err (parse_all rs) (\<lambda>objects.
                           relationships_frame objects observable t relationship) of
                      Inl e \<Rightarrow> Inl (Exception no_data_msg)
                    | Inr df \<Rightarrow> Inr df))
        in (client_close c1, result))"

definition lookup_ioc_relationships ::
  "backend \<Rightarrow> vt_client \<Rightarrow> pyval \<Rightarrow> pyval \<Rightarrow> string \<Rightarrow> int option
     \<Rightarrow> vt_client \<times> (error + dataframe)" where
  "lookup_ioc_relationships be c observable vt_type relationship limit =
     (case VTEntityType_call vt_type of
        Inl e \<Rightarrow> (c, Inl e)
      | Inr t \<Rightarrow>
          if t \<notin> supported_vt_types then (c, Inl (KeyError (not_supported_msg vt_type)))
          else
            (case get_endpoint_name vt_type of
               Inl e \<Rightarrow> (c, Inl e)
             | Inr endpoint_name \<Rightarrow>
                 (case limit of
                    Some given \<Rightarrow>
                      fetch_relationships be c endpoint_name observable t relationship given
                  | None \<Rightarrow>
                      (case get_endpoint_name (Member t) of
                         Inl e \<Rightarrow> (c, Inl e)
                       | Inr endpoint_name' \<Rightarrow>
                           let (c1, response) =
                                 client_get_object be c
                                   (''/'' @ endpoint_name' @ ''/'' @ py_format observable
                                      @ ''?relationship_counters=true'')
                           in (case relationship_limit response relationship of
                                 None \<Rightarrow> (c1, Inr pd_DataFrame_empty)
                               | Some counted \<Rightarrow>
                                   fetch_relationships be c1 endpoint_name' observable t
                                     relationship counted)))))"

section \<open>Graph assembly\<close>

text \<open>
  \<^verbatim>\<open>groupby\<close> sorts the group keys. Strings are ordered lexicographically, numbers by
  value; the key function below is injective, so the sorted list of distinct keys is
  determined.
\<close>

fun py_sort_key :: "pyval \<Rightarrow> nat \<times> int \<times> string" where
  "py_sort_key NaN = (0, 0, [])"
| "py_sort_key (Num n) = (1, n, [])"
| "py_sort_key (Str s) = (2, 0, s)"
| "py_sort_key (Member m) = (3, 0, VTEntityType_value m)"

definition first_valid :: "pyval list \<Rightarrow> pyval" where
  "first_valid vs = (case find (\<lambda>v. v \<noteq> NaN) vs of None \<Rightarrow> NaN | Some v \<Rightarrow> v)"

text \<open>
  The group keys of \<^verbatim>\<open>df.groupby(key)\<close>: the distinct values of the column that are
  not missing, sorted.
\<close>

definition group_keys :: "dataframe \<Rightarrow> string \<Rightarrow> pyval list" where
  "group_keys df key =
     sort_key py_sort_key (remdups (filter (\<lambda>v. v \<noteq> NaN) (column_values df key)))"

text \<open>
  \<^verbatim>\<open>.first()\<close> on the group of key \<open>k\<close>: the first value of \<open>col\<close>, in row order,
  among the rows whose \<open>key\<close> is \<open>k\<close>, that is not missing.
\<close>

definition first_seen :: "dataframe \<Rightarrow> string \<Rightarrow> string \<Rightarrow> pyval \<Rightarrow> pyval" where
  "first_seen df key col k =
     first_valid (map (\<lambda>r. cell r col) (filter (\<lambda>r. cell r key = k) (rows df)))"

text \<open>
  \<^verbatim>\<open>df.groupby(key)[col].first().reset_index()\<close>: one row per group key, in sorted
  order, with the first value of \<open>col\<close> in the group that is not missing.
\<close>

definition groupby_first :: "dataframe \<Rightarrow> string \<Rightarrow> string \<Rightarrow> error + dataframe" where
  "groupby_first df key col =
     (if key \<notin> set (columns df) then Inl (KeyError key)
      else if col \<notin> set (columns df) then Inl (KeyError (''Column not found: '' @ col))
      else if key = col then Inl (ValueError ''cannot insert, already exists'')
      else
        Inr \<lparr>index_names = [], columns = [key, col],
              rows = map (\<lambda>k. [(key, k), (col, first_seen df key col k)]) (group_keys df key)\<rparr>)"

text \<open>
  The graph SDK is modelled by the calls made on the \<^verbatim>\<open>VTGraph\<close> object, in order. The
  identifier the service assigns to the saved graph is a parameter.
\<close>

datatype graph_call =
    NewGraph string string bool
  | AddNode pyval pyval
  | AddLink pyval pyval pyval
  | SaveGraph

definition create_vt_graph ::
  "vt_client \<Rightarrow> dataframe list \<Rightarrow> string \<Rightarrow> bool \<Rightarrow> string \<Rightarrow> error + (graph_call list \<times> string)" where
  "create_vt_graph c relationship_dfs graph_name private graph_id =
     (if length relationship_dfs = 0 then Inl (ValueError ''There are no relationship DataFrames'')
      else
        bind_err (reset_index (pd_concat relationship_dfs)) (\<lambda>concatenated_df.
        bind_err (groupby_first concatenated_df ColumnNames_SOURCE ColumnNames_SOURCE_TYPE) (\<lambda>g1.
        bind_err (groupby_first concatenated_df ColumnNames_TARGET ColumnNames_TARGET_TYPE) (\<lambda>g2.
          let sources_df = rename_columns g1 [(ColumnNames_SOURCE, ColumnNames_ID),
                                              (ColumnNames_SOURCE_TYPE, ColumnNames_TYPE)];
              target_df = rename_columns g2 [(ColumnNames_TARGET, ColumnNames_ID),
                                             (ColumnNames_TARGET_TYPE, ColumnNames_TYPE)];
              nodes_df = pd_concat [sources_df, target_df];
              graph = [NewGraph (vt_key c) graph_name private]
                        @ map (\<lambda>r. AddNode (cell r ColumnNames_ID) (cell r ColumnNames_TYPE))
                              (rows nodes_df)
          in if rows concatenated_df \<noteq> []
                \<and> ColumnNames_RELATIONSHIP_TYPE \<notin> set (columns concatenated_df)
               then Inl (KeyError ColumnNames_RELATIONSHIP_TYPE)
             else Inr (graph
                         @ map (\<lambda>r. AddLink (cell r ColumnNames_SOURCE) (cell r ColumnNames_TARGET)
                                        (cell r ColumnNames_RELATIONSHIP_TYPE))
                               (rows concatenated_df)
                         @ [SaveGraph],
                       graph_id)))))"

text \<open>The identifiers of the nodes added to a graph, in the order of the calls.\<close>

fun added_node_ids :: "graph_call list \<Rightarrow> pyval list" where
  "added_node_ids [] = []"
| "added_node_ids (AddNode node_id node_type # g) = node_id # added_node_ids g"
| "added_node_ids (x # g) = added_node_ids g"

text \<open>The nodes added to a graph, identifier and kind, in the order of the calls.\<close>

fun added_nodes :: "graph_call list \<Rightarrow> (pyval \<times> pyval) list" where
  "added_nodes [] = []"
| "added_nodes (AddNode node_id node_type # g) = (node_id, node_type) # added_nodes g"
| "added_nodes (x # g) = added_nodes g"

text \<open>
  The shape of the table \<^verbatim>\<open>lookup_ioc_relationships\<close> returns when it has found related
  objects: keyed by (source, target), with the two kinds and the relationship name among
  its columns. Otherwise it returns \<^verbatim>\<open>pd.DataFrame()\<close>.
\<close>

definition is_edge_table :: "dataframe \<Rightarrow> bool" where
  "is_edge_table df \<longleftrightarrow>
     index_names df = [ColumnNames_SOURCE, ColumnNames_TARGET]
   \<and> ColumnNames_SOURCE \<notin> set (columns df) \<and> ColumnNames_TARGET \<notin> set (columns df)
   \<and> ColumnNames_SOURCE_TYPE \<in> set (columns df) \<and> ColumnNames_TARGET_TYPE \<in> set (columns df)
   \<and> ColumnNames_RELATIONSHIP_TYPE \<in> set (columns df)"

section \<open>Request paths\<close>

text \<open>
  The paths the operations request, for an indicator of kind \<open>t\<close>: the object itself
  (\<^verbatim>\<open>lookup_ioc\<close>) and the object with its relationship counters
  (\<^verbatim>\<open>lookup_ioc_relationships\<close> without a limit).
\<close>

definition object_path :: "VTEntityType \<Rightarrow> pyval \<Rightarrow> string" where
  "object_path t observable = ''/'' @ MAPPING_TYPES_ENDPOINT t @ ''/'' @ py_format observable"

definition counters_path :: "VTEntityType \<Rightarrow> pyval \<Rightarrow> string" where
  "counters_path t observable =
     ''/'' @ MAPPING_TYPES_ENDPOINT t @ ''/'' @ py_format observable @ ''?relationship_counters=true''"

section \<open>Fixtures\<close>

text \<open>
  A backend that knows one file, \<^verbatim>\<open>abc123\<close>, with one domain it contacted, and fails
  every other request; and a freshly built client.
\<close>

definition mock_attributes :: "(string \<times> json) list" where
  "mock_attributes =
     [(''type_description'', JStr ''PE32''), (''size'', JNum 1024),
      (''last_analysis_stats'', JObj [(''malicious'', JNum 3), (''harmless'', JNum 60)])]"

definition mock_object :: vt_object where
  "mock_object = \<lparr>obj_id = ''abc123'', obj_type = ''file'',
     attributes = Some mock_attributes,
     relationships = Some [(''contacted_domains'', Some 1)]\<rparr>"

definition mock_domain :: vt_object where
  "mock_domain = \<lparr>obj_id = ''evil.example'', obj_type = ''domain'',
     attributes = Some [(''country'', JStr ''ZZ''),
                        (''last_analysis_stats'', JObj [(''malicious'', JNum 7), (''harmless'', JNum 2)])],
     relationships = None\<rparr>"

definition mock_backend :: backend where
  "mock_backend =
     \<lparr>get_object = (\<lambda>c path.
        if path = ''/files/abc123'' \<or> path = ''/files/abc123?relationship_counters=true''
        then Some mock_object else None),
      iterator = (\<lambda>c path batch_size limit.
        if path = ''/files/abc123/relationships/contacted_domains'' then Some [mock_domain]
        else None)\<rparr>"

definition mock_client :: vt_client where
  "mock_client = init ''key''"

text \<open>An object whose attributes lack the verdict counts.\<close>

definition mock_object_no_stats :: vt_object where
  "mock_object_no_stats = \<lparr>obj_id = ''abc123'', obj_type = ''file'',
     attributes = Some [(''type_description'', JStr ''PE32''), (''size'', JNum 1024)],
     relationships = None\<rparr>"

definition mock_backend_no_stats :: backend where
  "mock_backend_no_stats =
     \<lparr>get_object = (\<lambda>c path. Some mock_object_no_stats),
      iterator = (\<lambda>c path batch_size limit. None)\<rparr>"

text \<open>
  A table of two indicators with the default index: a file the backend knows and one it
  does not.
\<close>

definition mock_table :: dataframe where
  "mock_table =
     \<lparr>index_names = [], columns = [ColumnNames_TARGET, ColumnNames_TARGET_TYPE],
      rows = [[(ColumnNames_TARGET, Str ''abc123''), (ColumnNames_TARGET_TYPE, Str ''file'')],
              [(ColumnNames_TARGET, Str ''ffff''), (ColumnNames_TARGET_TYPE, Str ''file'')]]\<rparr>"

text \<open>The same table with a first row whose kind is not in the enumeration.\<close>

definition mock_table_bad_kind :: dataframe where
  "mock_table_bad_kind =
     \<lparr>index_names = [], columns = [ColumnNames_TARGET, ColumnNames_TARGET_TYPE],
      rows = [[(ColumnNames_TARGET, Str ''abc123''), (ColumnNames_TARGET_TYPE, Str ''bogus'')],
              [(ColumnNames_TARGET, Str ''abc123''), (ColumnNames_TARGET_TYPE, Str ''file'')]]\<rparr>"

text \<open>
  The table of two indicators again, now indexed by a level named \<^verbatim>\<open>target\<close> next to
  the column of that name (as \<^verbatim>\<open>set_index('target', drop=False)\<close> leaves it).
\<close>

definition mock_table_index_clash :: dataframe where
  "mock_table_index_clash = mock_table\<lparr>index_names := [ColumnNames_TARGET]\<rparr>"

text \<open>
  A table with the default index that has neither configured column; its two columns are
  named \<^verbatim>\<open>index\<close> and \<^verbatim>\<open>level_0\<close>.
\<close>

definition mock_table_no_columns :: dataframe where
  "mock_table_no_columns =
     \<lparr>index_names = [], columns = [''index'', ''level_0''],
      rows = [[(''index'', Str ''abc123''), (''level_0'', Str ''file'')]]\<rparr>"

text \<open>
  Two edge tables keyed by (source, target), as \<^verbatim>\<open>lookup_ioc_relationships\<close> builds
  them: the domain \<^verbatim>\<open>evil.example\<close> is the target of the first and the source of the
  second, with the same kind.
\<close>

definition edge_row :: "string \<Rightarrow> string \<Rightarrow> string \<Rightarrow> string \<Rightarrow> string \<Rightarrow> row" where
  "edge_row s st rel t tt =
     [(ColumnNames_SOURCE, Str s), (ColumnNames_TARGET, Str t),
      (ColumnNames_TARGET_TYPE, Str tt), (ColumnNames_SOURCE_TYPE, Str st),
      (ColumnNames_RELATIONSHIP_TYPE, Str rel)]"

definition edge_table :: "row list \<Rightarrow> dataframe" where
  "edge_table rs =
     \<lparr>index_names = [ColumnNames_SOURCE, ColumnNames_TARGET],
      columns = [ColumnNames_TARGET_TYPE, ColumnNames_SOURCE_TYPE, ColumnNames_RELATIONSHIP_TYPE],
      rows = rs\<rparr>"

definition mock_edges1 :: dataframe where
  "mock_edges1 = edge_table [edge_row ''abc123'' ''file'' ''contacted_domains'' ''evil.example'' ''domain'']"

definition mock_edges2 :: dataframe where
  "mock_edges2 = edge_table [edge_row ''evil.example'' ''domain'' ''resolutions'' ''10.0.0.1'' ''ip_address'']"

text \<open>An edge table that shares its source, the file \<^verbatim>\<open>abc123\<close>, with the first.\<close>

definition mock_edges3 :: dataframe where
  "mock_edges3 = edge_table [edge_row ''abc123'' ''file'' ''contacted_domains'' ''other.example'' ''domain'']"

text \<open>The calls \<^verbatim>\<open>create_vt_graph\<close> makes for the first and the second edge table.\<close>

definition mock_graph12 :: "graph_call list" where
  "mock_graph12 =
     [NewGraph ''key'' ''g'' True,
      AddNode (Str ''abc123'') (Str ''file''),
      AddNode (Str ''evil.example'') (Str ''domain''),
      AddNode (Str ''10.0.0.1'') (Str ''ip_address''),
      AddNode (Str ''evil.example'') (Str ''domain''),
      AddLink (Str ''abc123'') (Str ''evil.example'') (Str ''contacted_domains''),
      AddLink (Str ''evil.example'') (Str ''10.0.0.1'') (Str ''resolutions''),
      SaveGraph]"

text \<open>The calls it makes for the first and the third.\<close>

definition mock_graph13 :: "graph_call list" where
  "mock_graph13 =
     [NewGraph ''key'' ''g'' True,
      AddNode (Str ''abc123'') (Str ''file''),
      AddNode (Str ''evil.example'') (Str ''domain''),
      AddNode (Str ''other.example'') (Str ''domain''),
      AddLink (Str ''abc123'') (Str ''evil.example'') (Str ''contacted_domains''),
      AddLink (Str ''abc123'') (Str ''other.example'') (Str ''contacted_domains''),
      SaveGraph]"

section \<open>Properties of the tables and of the parser\<close>

lemma VTEntityType_call_outside:
  assumes "vt_type \<notin> {Str ''file'', Str ''domain'', Str ''ip_address'', Str ''url''}"
    and "\<forall>m. vt_type \<noteq> Member m"
  shows "VTEntityType_call vt_type = Inl (ValueError ''not a valid VTEntityType'')"
  using assms by (cases vt_type) auto

lemma VTEntityType_call_value [simp]: "VTEntityType_call (Str (VTEntityType_value t)) = Inr t"
  by (cases t) simp_all

lemma get_endpoint_name_supported:
  "VTEntityType_call vt_type = Inr t \<Longrightarrow> get_endpoint_name vt_type = Inr (MAPPING_TYPES_ENDPOINT t)"
  by (cases t) (simp_all add: get_endpoint_name_def bind_err_def SUPPORTED_VT_TYPES_def)

lemma get_endpoint_name_Member [simp]:
  "get_endpoint_name (Member t) = Inr (MAPPING_TYPES_ENDPOINT t)"
  by (simp add: get_endpoint_name_supported)

lemma all_supported: "t \<in> supported_vt_types"
  by (cases t) (simp_all add: supported_vt_types_def SUPPORTED_VT_TYPES_def)

lemma parse_mock_attributes:
  assumes "obj_id vt_obj = ''abc123''" and "obj_type vt_obj = ''file''"
    and "attributes vt_obj = Some mock_attributes"
  shows "parse_vt_object vt_obj =
     Inr \<lparr>index_names = [ColumnNames_ID],
           columns = [''type_description'', ''size'', ColumnNames_DETECTIONS,
                      ColumnNames_SCANS, ColumnNames_TYPE],
           rows = [[(''type_description'', Str ''PE32''), (''size'', Num 1024),
                    (ColumnNames_DETECTIONS, Num 3), (ColumnNames_SCANS, Num 63),
                    (ColumnNames_ID, Str ''abc123''), (ColumnNames_TYPE, Str ''file'')]]\<rparr>"
  using assms
  by (simp add: mock_attributes_def parse_vt_object_def parse_attributes_def bind_err_def
      SUPPORTED_VT_TYPES_def
      List.map_filter_def json_normalize_def dict_update_def set_column_def set_column_list_def
      set_index_def)

lemma parse_vt_object_no_stats:
  assumes "attributes vt_obj = Some attrs" and "map_of attrs LAST_ANALYSIS_STATS = None"
  shows "parse_vt_object vt_obj =
           (case VTEntityType_call (Str (obj_type vt_obj)) of
              Inl e \<Rightarrow> Inl e
            | Inr t \<Rightarrow> Inl (KeyError LAST_ANALYSIS_STATS))"
  using assms all_supported
  by (simp add: parse_vt_object_def parse_attributes_def bind_err_def supported_vt_types_def
      Let_def split: sum.splits)

lemma rows_set_column [simp]: "length (rows (set_column df c v)) = length (rows df)"
  by (simp add: set_column_def)

lemma rows_set_column_list:
  assumes "set_column_list df c [v] = Inr df'" and "length (rows df) \<le> 1"
  shows "length (rows df') = 1"
  using assms
  by (cases "rows df") (auto simp add: set_column_list_def Let_def split: if_splits)

lemma set_index_Inr:
  assumes "set_index df keys = Inr df'"
  shows "length (rows df') = length (rows df) \<and> index_names df' = keys"
  using assms by (auto simp add: set_index_def split: option.splits)

lemma rows_json_normalize [simp]: "length (rows (json_normalize obj)) = 1"
  by (simp add: json_normalize_def Let_def)

lemma parse_attributes_rows:
  assumes "parse_attributes vt_obj = Inr df"
  shows "length (rows df) \<le> 1"
proof (cases "attributes vt_obj")
  case None
  with assms show ?thesis by (auto simp add: parse_attributes_def pd_DataFrame_empty_def)
next
  case (Some attrs)
  with assms show ?thesis
    by (auto simp add: parse_attributes_def bind_err_def Let_def
        simp del: VTEntityType_call.simps
        split: sum.splits option.splits if_splits json.splits)
qed

lemma parse_vt_object_one_row:
  assumes "parse_vt_object vt_obj = Inr df"
  shows "length (rows df) = 1 \<and> index_names df = [ColumnNames_ID]"
proof -
  from assms obtain df0 df2 df3 where
    s1: "parse_attributes vt_obj = Inr df0"
    and s2: "set_column_list df0 ColumnNames_ID [Str (obj_id vt_obj)] = Inr df2"
    and s3: "set_column_list df2 ColumnNames_TYPE [Str (obj_type vt_obj)] = Inr df3"
    and s4: "set_index df3 [ColumnNames_ID] = Inr df"
    by (auto simp add: parse_vt_object_def bind_err_def split: sum.splits)
  from rows_set_column_list [OF s2 parse_attributes_rows [OF s1]]
  have "length (rows df2) \<le> 1" by simp
  from rows_set_column_list [OF s3 this] set_index_Inr [OF s4] show ?thesis by simp
qed

lemma lookup_ioc_one_row:
  assumes "lookup_ioc be c observable vt_type = (c', Inr df)"
  shows "length (rows df) = 1 \<and> index_names df = [ColumnNames_ID]"
proof (cases "VTEntityType_call vt_type")
  case (Inl e)
  with assms show ?thesis by (simp add: lookup_ioc_def)
next
  case (Inr t)
  with assms all_supported [of t] obtain vt_obj where "parse_vt_object vt_obj = Inr df"
    by (auto simp add: lookup_ioc_def client_get_object_def split: option.splits sum.splits)
  then show ?thesis by (rule parse_vt_object_one_row)
qed

lemma stub_frame_eq:
  "stub_frame observable observable_type =
     \<lparr>index_names = [ColumnNames_ID], columns = [ColumnNames_TYPE],
      rows = [[(ColumnNames_ID, observable), (ColumnNames_TYPE, observable_type)]]\<rparr>"
  by (simp add: stub_frame_def set_index_def pd_DataFrame_data_def)

lemma lookup_iocs_step_shape:
  "\<exists>c' f. lookup_iocs_step be (c, dfs) p = (c', dfs @ [f]) \<and> length (rows f) = 1
     \<and> (case lookup_ioc be c (fst p) (snd p) of
           (c'', Inr df) \<Rightarrow> c' = c'' \<and> f = df
         | (c'', Inl e) \<Rightarrow> c' = c'' \<and> f = stub_frame (fst p) (snd p))"
proof (cases "lookup_ioc be c (fst p) (snd p)")
  case (Pair c'' r)
  show ?thesis
  proof (cases r)
    case (Inl e)
    with Pair show ?thesis
      by (cases p) (auto simp add: lookup_iocs_step_def stub_frame_eq)
  next
    case (Inr df)
    with Pair lookup_ioc_one_row [of be c "fst p" "snd p" c'' df] show ?thesis
      by (cases p) (auto simp add: lookup_iocs_step_def)
  qed
qed

lemma lookup_iocs_loop_Nil [simp]: "lookup_iocs_loop be s [] = s"
  by (simp add: lookup_iocs_loop_def)

lemma lookup_iocs_loop_Cons [simp]:
  "lookup_iocs_loop be s (p # ps) = lookup_iocs_loop be (lookup_iocs_step be s p) ps"
  by (simp add: lookup_iocs_loop_def)

lemma lookup_iocs_loop_append:
  "lookup_iocs_loop be s (xs @ ys) = lookup_iocs_loop be (lookup_iocs_loop be s xs) ys"
  by (simp add: lookup_iocs_loop_def)

lemma lookup_iocs_loop_extends:
  "\<exists>c' new. lookup_iocs_loop be (c, dfs) items = (c', dfs @ new) \<and> length new = length items
      \<and> (\<forall>f \<in> set new. length (rows f) = 1)"
proof (induction items arbitrary: c dfs)
  case Nil
  then show ?case by simp
next
  case (Cons p ps)
  from lookup_iocs_step_shape [of be c dfs p] obtain c1 f where
    st: "lookup_iocs_step be (c, dfs) p = (c1, dfs @ [f])" and f: "length (rows f) = 1"
    by blast
  from Cons.IH [of c1 "dfs @ [f]"] obtain c' new where
    "lookup_iocs_loop be (c1, dfs @ [f]) ps = (c', (dfs @ [f]) @ new)"
    and "length new = length ps" and "\<forall>g \<in> set new. length (rows g) = 1"
    by blast
  with st f have "lookup_iocs_loop be (c, dfs) (p # ps) = (c', dfs @ (f # new))
      \<and> length (f # new) = length (p # ps) \<and> (\<forall>g \<in> set (f # new). length (rows g) = 1)"
    by simp
  then show ?case by blast
qed

lemma lookup_iocs_loop_nth:
  assumes "i < length items"
  shows "\<exists>c' f. lookup_iocs_step be (lookup_iocs_loop be (c, []) (take i items)) (items ! i)
                  = (c', snd (lookup_iocs_loop be (c, []) (take i items)) @ [f])
           \<and> snd (lookup_iocs_loop be (c, []) items) ! i = f"
proof -
  obtain ci dfsi where si: "lookup_iocs_loop be (c, []) (take i items) = (ci, dfsi)"
    by (cases "lookup_iocs_loop be (c, []) (take i items)")
  from lookup_iocs_loop_extends [of be c "[]" "take i items"] si assms
  have len: "length dfsi = i" by auto
  from lookup_iocs_step_shape [of be ci dfsi "items ! i"] obtain c1 f where
    st: "lookup_iocs_step be (ci, dfsi) (items ! i) = (c1, dfsi @ [f])" by blast
  from assms have "items = take i items @ items ! i # drop (Suc i) items"
    by (simp add: id_take_nth_drop)
  then have "lookup_iocs_loop be (c, []) items
               = lookup_iocs_loop be (c1, dfsi @ [f]) (drop (Suc i) items)"
    using si st by (metis lookup_iocs_loop_append lookup_iocs_loop_Cons)
  moreover from lookup_iocs_loop_extends [of be c1 "dfsi @ [f]" "drop (Suc i) items"]
  obtain c' new where
    "lookup_iocs_loop be (c1, dfsi @ [f]) (drop (Suc i) items) = (c', (dfsi @ [f]) @ new)"
    by blast
  ultimately have "snd (lookup_iocs_loop be (c, []) items) ! i = f"
    using len by (simp add: nth_append)
  with si st show ?thesis by simp
qed

lemma concat_rows_non_empties:
  "concat (map rows (filter (\<lambda>d. rows d \<noteq> [] \<or> columns d \<noteq> []) dfs)) = concat (map rows dfs)"
  by (induction dfs) auto

lemma rows_pd_concat [simp]: "rows (pd_concat dfs) = concat (map rows dfs)"
  using concat_rows_non_empties [of dfs] by (simp add: pd_concat_def Let_def)

lemma concat_single_rows:
  assumes "\<forall>f \<in> set dfs. length (rows f) = 1"
  shows "length (concat (map rows dfs)) = length dfs
       \<and> (\<forall>i < length dfs. rows (dfs ! i) = [concat (map rows dfs) ! i])"
  using assms
proof (induction dfs)
  case Nil
  then show ?case by simp
next
  case (Cons d ds)
  then obtain r where r: "rows d = [r]"
    by (cases "rows d") auto
  with Cons show ?case
    by (auto simp add: nth_Cons split: nat.splits)
qed

lemma rows_reset_index:
  assumes "reset_index df = Inr df'"
  shows "length (rows df') = length (rows df)"
  using assms by (auto simp add: reset_index_def Let_def split: if_splits)

lemma lookup_ioc_mock_known:
  "lookup_ioc mock_backend c (Str ''abc123'') (Str ''file'') =
     (c\<lparr>closed := True, requests := requests c @ [GetObject ''/files/abc123'']\<rparr>,
      Inr \<lparr>index_names = [ColumnNames_ID],
           columns = [''type_description'', ''size'', ColumnNames_DETECTIONS,
                      ColumnNames_SCANS, ColumnNames_TYPE],
           rows = [[(''type_description'', Str ''PE32''), (''size'', Num 1024),
                    (ColumnNames_DETECTIONS, Num 3), (ColumnNames_SCANS, Num 63),
                    (ColumnNames_ID, Str ''abc123''), (ColumnNames_TYPE, Str ''file'')]]\<rparr>)"
  using parse_mock_attributes [of mock_object]
  by (simp add: lookup_ioc_def all_supported client_get_object_def client_close_def
      mock_backend_def mock_object_def)

lemma lookup_ioc_mock_unknown:
  "lookup_ioc mock_backend c (Str ''ffff'') (Str ''file'') =
     (c\<lparr>closed := True, requests := requests c @ [GetObject ''/files/ffff'']\<rparr>,
      Inl (Exception no_data_msg))"
  by (simp add: lookup_ioc_def all_supported client_get_object_def client_close_def
      mock_backend_def)

lemma lookup_ioc_mock_bogus:
  "lookup_ioc mock_backend c observable (Str ''bogus'') =
     (c, Inl (ValueError ''not a valid VTEntityType''))"
  by (simp add: lookup_ioc_def)

lemma lookup_ioc_closed_mono:
  "closed c \<Longrightarrow> closed (fst (lookup_ioc be c observable vt_type))"
  by (auto simp add: lookup_ioc_def client_get_object_def client_close_def
      split: sum.splits)

lemma lookup_ioc_closes:
  "VTEntityType_call vt_type = Inr t \<Longrightarrow> closed (fst (lookup_ioc be c observable vt_type))"
  by (simp add: lookup_ioc_def all_supported client_get_object_def client_close_def)

lemma fetch_relationships_closed_mono:
  "closed c \<Longrightarrow> closed (fst (fetch_relationships be c endpoint_name observable t relationship limit))"
  by (simp add: fetch_relationships_def client_iterator_def client_close_def)

lemma lookup_ioc_relationships_closed_mono:
  "closed c \<Longrightarrow> closed (fst (lookup_ioc_relationships be c observable vt_type relationship limit))"
  by (auto simp add: lookup_ioc_relationships_def client_get_object_def
      fetch_relationships_closed_mono split: sum.splits option.splits)

lemma lookup_iocs_step_closed_mono:
  "closed (fst s) \<Longrightarrow> closed (fst (lookup_iocs_step be s p))"
proof -
  assume a: "closed (fst s)"
  obtain c dfs where s: "s = (c, dfs)" by (cases s)
  obtain observable vt_type where p: "p = (observable, vt_type)" by (cases p)
  from a s lookup_ioc_closed_mono [of c be observable vt_type] show ?thesis
    by (auto simp add: s p lookup_iocs_step_def split: prod.splits sum.splits)
qed

lemma lookup_iocs_step_closes:
  "VTEntityType_call (snd p) = Inr t \<Longrightarrow> closed (fst (lookup_iocs_step be s p))"
proof -
  assume a: "VTEntityType_call (snd p) = Inr t"
  obtain c dfs where s: "s = (c, dfs)" by (cases s)
  obtain observable vt_type where p: "p = (observable, vt_type)" by (cases p)
  from a p lookup_ioc_closes [of vt_type t be c observable] show ?thesis
    by (auto simp add: s p lookup_iocs_step_def split: prod.splits sum.splits)
qed

lemma lookup_iocs_loop_closed_mono:
  "closed (fst s) \<Longrightarrow> closed (fst (lookup_iocs_loop be s items))"
  by (induction items arbitrary: s) (simp_all add: lookup_iocs_step_closed_mono)

lemma lookup_iocs_loop_closed_after:
  assumes "j < i" and "i \<le> length items" and "VTEntityType_call (snd (items ! j)) = Inr t"
  shows "closed (fst (lookup_iocs_loop be s (take i items)))"
proof -
  define xs where "xs = take i items"
  from assms(1,2) have j: "j < length xs" by (simp add: xs_def)
  from assms(1) have nth: "xs ! j = items ! j" by (simp add: xs_def)
  from j have "xs = take j xs @ xs ! j # drop (Suc j) xs"
    by (rule id_take_nth_drop)
  then have "lookup_iocs_loop be s xs =
      lookup_iocs_loop be (lookup_iocs_step be (lookup_iocs_loop be s (take j xs)) (xs ! j))
        (drop (Suc j) xs)"
    by (metis lookup_iocs_loop_append lookup_iocs_loop_Cons)
  moreover from assms(3) nth
  have "closed (fst (lookup_iocs_step be (lookup_iocs_loop be s (take j xs)) (xs ! j)))"
    by (simp add: lookup_iocs_step_closes)
  ultimately show ?thesis
    by (simp add: lookup_iocs_loop_closed_mono xs_def)
qed

lemma lookup_iocs_closed_mono:
  assumes "closed c"
  shows "closed (fst (lookup_iocs be c observables_df observable_column observable_type_column))"
proof (cases "reset_index observables_df")
  case (Inl e)
  with assms show ?thesis by (simp add: lookup_iocs_def)
next
  case (Inr df')
  define items where "items = zip (column_values df' observable_column)
                                  (column_values df' observable_type_column)"
  from assms have "closed (fst (lookup_iocs_loop be (c, []) items))"
    by (simp add: lookup_iocs_loop_closed_mono)
  with assms Inr show ?thesis
    by (auto simp add: lookup_iocs_def items_def split: option.splits prod.splits)
qed

lemma added_node_ids_append [simp]:
  "added_node_ids (xs @ ys) = added_node_ids xs @ added_node_ids ys"
  by (induction xs rule: added_node_ids.induct) simp_all

lemma added_node_ids_AddNode [simp]:
  "added_node_ids (map (\<lambda>r. AddNode (f r) (g r)) rs) = map f rs"
  by (induction rs) simp_all

lemma added_node_ids_AddLink [simp]:
  "added_node_ids (map (\<lambda>r. AddLink (f r) (g r) (h r)) rs) = []"
  by (induction rs) simp_all

lemma py_sort_key_inj: "inj py_sort_key"
proof (rule injI)
  fix x y assume "py_sort_key x = py_sort_key y"
  then show "x = y"
    by (cases x; cases y) (auto elim: VTEntityType_value.elims)
qed

lemma group_keys_distinct: "distinct (group_keys df key)"
  by (simp add: group_keys_def)

lemma group_keys_set: "set (group_keys df key) = set (column_values df key) - {NaN}"
  by (auto simp add: group_keys_def)

lemma groupby_first_ids:
  assumes "groupby_first df key col = Inr g" and "new_key \<noteq> new_col"
  shows "map (\<lambda>r. cell r new_key) (rows (rename_columns g [(key, new_key), (col, new_col)]))
           = group_keys df key"
proof -
  from assms(1) have kc: "key \<noteq> col"
    and g: "rows g = map (\<lambda>k. [(key, k), (col, first_seen df key col k)]) (group_keys df key)"
    and cs: "columns g = [key, col]"
    by (auto simp add: groupby_first_def split: if_splits)
  show ?thesis
    unfolding rename_columns_def g cs
    by (simp add: comp_def rename_name_def cell_def kc assms(2) map_idI)
qed

lemma count_list_distinct:
  "distinct xs \<Longrightarrow> count_list xs x = (if x \<in> set xs then 1 else 0)"
  by (induction xs) auto


lemma mock_edges12_graph:
  "create_vt_graph mock_client [mock_edges1, mock_edges2] ''g'' True ''gid''
     = Inr (mock_graph12, ''gid'')"
  by code_simp

lemma added_nodes_append [simp]:
  "added_nodes (xs @ ys) = added_nodes xs @ added_nodes ys"
  by (induction xs rule: added_nodes.induct) simp_all

lemma added_nodes_AddNode [simp]:
  "added_nodes (map (\<lambda>r. AddNode (f r) (g r)) rs) = map (\<lambda>r. (f r, g r)) rs"
  by (induction rs) simp_all

lemma added_nodes_AddLink [simp]:
  "added_nodes (map (\<lambda>r. AddLink (f r) (g r) (h r)) rs) = []"
  by (induction rs) simp_all

lemma added_node_ids_added_nodes: "added_node_ids g = map fst (added_nodes g)"
  by (induction g rule: added_nodes.induct) simp_all

lemma groupby_first_nodes:
  assumes "groupby_first df key col = Inr g" and "new_key \<noteq> new_col"
  shows "map (\<lambda>r. (cell r new_key, cell r new_col))
           (rows (rename_columns g [(key, new_key), (col, new_col)]))
           = map (\<lambda>k. (k, first_seen df key col k)) (group_keys df key)"
proof -
  from assms(1) have kc: "key \<noteq> col"
    and g: "rows g = map (\<lambda>k. [(key, k), (col, first_seen df key col k)]) (group_keys df key)"
    and cs: "columns g = [key, col]"
    by (auto simp add: groupby_first_def split: if_splits)
  show ?thesis
    unfolding rename_columns_def g cs
    using kc assms(2) by (simp add: comp_def rename_name_def cell_def)
qed

lemma set_unique_names [simp]: "set (unique_names cs) = set cs"
  by (simp add: unique_names_def)

lemma is_edge_table_not_empty: "is_edge_table df \<Longrightarrow> columns df \<noteq> []"
  by (auto simp add: is_edge_table_def)

lemma pd_concat_edge_tables:
  assumes all: "\<forall>df \<in> set dfs. is_edge_table df \<or> df = pd_DataFrame_empty"
    and one: "\<exists>df \<in> set dfs. is_edge_table df"
  shows "is_edge_table (pd_concat dfs)"
proof -
  define objs where "objs = filter (\<lambda>d. rows d \<noteq> [] \<or> columns d \<noteq> []) dfs"
  have wf: "is_edge_table d" if "d \<in> set objs" for d
    using that all by (auto simp add: objs_def pd_DataFrame_empty_def)
  from one obtain e where e: "e \<in> set objs" "is_edge_table e"
    using is_edge_table_not_empty by (auto simp add: objs_def)
  then have ne: "objs \<noteq> []" by auto
  have eq: "pd_concat dfs =
      \<lparr>index_names = (case objs of [] \<Rightarrow> []
                       | d # ds \<Rightarrow> if \<forall>d' \<in> set ds. index_names d' = index_names d
                                   then index_names d else []),
       columns = unique_names (concat (map columns objs)),
       rows = concat (map rows objs)\<rparr>"
    using ne unfolding pd_concat_def Let_def objs_def by simp
  have idx: "index_names (pd_concat dfs) = [ColumnNames_SOURCE, ColumnNames_TARGET]"
  proof (cases objs)
    case Nil
    with ne show ?thesis by simp
  next
    case (Cons d ds)
    with wf have "is_edge_table d" and "\<forall>d' \<in> set ds. is_edge_table d'" by simp_all
    then show ?thesis
      unfolding eq Cons by (simp add: is_edge_table_def)
  qed
  have cols: "set (columns (pd_concat dfs)) = (\<Union>d \<in> set objs. set (columns d))"
    unfolding eq by simp
  from wf e show ?thesis
    unfolding is_edge_table_def idx cols by auto
qed

lemma reset_index_edge_table:
  assumes "is_edge_table df"
  shows "reset_index df =
     Inr \<lparr>index_names = [],
           columns = [ColumnNames_SOURCE, ColumnNames_TARGET] @ columns df, rows = rows df\<rparr>"
  using assms by (simp add: reset_index_def is_edge_table_def)

lemma create_vt_graph_edge_tables:
  assumes all: "\<forall>df \<in> set dfs. is_edge_table df \<or> df = pd_DataFrame_empty"
    and one: "\<exists>df \<in> set dfs. is_edge_table df"
  shows "\<exists>g cdf. create_vt_graph c dfs graph_name private graph_id = Inr (g, graph_id)
           \<and> reset_index (pd_concat dfs) = Inr cdf
           \<and> rows cdf = concat (map rows dfs)"
proof -
  let ?cdf = "\<lparr>index_names = [],
               columns = [ColumnNames_SOURCE, ColumnNames_TARGET] @ columns (pd_concat dfs),
               rows = rows (pd_concat dfs)\<rparr>"
  from pd_concat_edge_tables [OF all one] have wf: "is_edge_table (pd_concat dfs)" .
  then have r: "reset_index (pd_concat dfs) = Inr ?cdf" by (rule reset_index_edge_table)
  from one have ne: "dfs \<noteq> []" by auto
  from wf have "\<exists>g. create_vt_graph c dfs graph_name private graph_id = Inr (g, graph_id)"
    unfolding create_vt_graph_def using ne
    by (simp add: r bind_err_def groupby_first_def is_edge_table_def Let_def)
  with r show ?thesis by auto
qed


lemma columns_set_column [simp]:
  "set (columns (set_column df c v)) = insert c (set (columns df))"
  by (auto simp add: set_column_def)

lemma set_column_list_columns:
  "set_column_list df c vs = Inr df' \<Longrightarrow> set (columns df') = insert c (set (columns df))"
  by (auto simp add: set_column_list_def Let_def split: if_splits)

lemma set_index_columns:
  "set_index df keys = Inr df' \<Longrightarrow> columns df' = filter (\<lambda>c. c \<notin> set keys) (columns df)"
  by (auto simp add: set_index_def split: option.splits)

lemma reset_index_columns:
  "reset_index df = Inr df' \<Longrightarrow> set (columns df) \<subseteq> set (columns df')"
  by (auto simp add: reset_index_def Let_def split: if_splits)

lemma columns_rename_columns [simp]:
  "set (columns (rename_columns df m)) = rename_name m ` set (columns df)"
  by (simp add: rename_columns_def)

lemma parse_vt_object_type_column:
  assumes "parse_vt_object vt_obj = Inr df"
  shows "ColumnNames_TYPE \<in> set (columns df)"
proof -
  from assms obtain df0 df2 df3 where
    s2: "set_column_list df0 ColumnNames_ID [Str (obj_id vt_obj)] = Inr df2"
    and s3: "set_column_list df2 ColumnNames_TYPE [Str (obj_type vt_obj)] = Inr df3"
    and s4: "set_index df3 [ColumnNames_ID] = Inr df"
    by (auto simp add: parse_vt_object_def bind_err_def split: sum.splits)
  from set_column_list_columns [OF s3] set_index_columns [OF s4] show ?thesis by simp
qed

lemma parse_all_type_column:
  "parse_all rs = Inr objects \<Longrightarrow> \<forall>d \<in> set objects. ColumnNames_TYPE \<in> set (columns d)"
proof (induction rs arbitrary: objects)
  case Nil
  then show ?case by simp
next
  case (Cons r rs)
  then show ?case
    by (auto simp add: bind_err_def parse_vt_object_type_column split: sum.splits)
qed

lemma pd_concat_columns_mem:
  assumes "d \<in> set dfs" and "c \<in> set (columns d)"
  shows "c \<in> set (columns (pd_concat dfs))"
proof -
  from assms have "d \<in> set (filter (\<lambda>d. rows d \<noteq> [] \<or> columns d \<noteq> []) dfs)" by auto
  with assms(2) show ?thesis
    unfolding pd_concat_def Let_def by (auto split: if_splits)
qed

lemma relationships_frame_shape:
  assumes "relationships_frame objects observable t relationship = Inr df"
    and ty: "\<forall>d \<in> set objects. ColumnNames_TYPE \<in> set (columns d)"
  shows "is_edge_table df \<or> df = pd_DataFrame_empty"
proof (cases objects)
  case Nil
  with assms(1) show ?thesis by (simp add: relationships_frame_def)
next
  case (Cons o1 os)
  let ?df3 = "set_column (set_column (set_column (pd_concat objects)
                    ColumnNames_SOURCE observable)
                    ColumnNames_SOURCE_TYPE (Str (VTEntityType_value t)))
                    ColumnNames_RELATIONSHIP_TYPE (Str relationship)"
  from assms(1) Cons have "bind_err (reset_index ?df3) (\<lambda>df4.
        set_index (rename_columns df4 [(ColumnNames_ID, ColumnNames_TARGET),
                                       (ColumnNames_TYPE, ColumnNames_TARGET_TYPE)])
          [ColumnNames_SOURCE, ColumnNames_TARGET]) = Inr df"
    by (simp add: relationships_frame_def Let_def)
  then obtain df4 where
    r: "reset_index ?df3 = Inr df4"
    and s: "set_index (rename_columns df4 [(ColumnNames_ID, ColumnNames_TARGET),
                                           (ColumnNames_TYPE, ColumnNames_TARGET_TYPE)])
              [ColumnNames_SOURCE, ColumnNames_TARGET] = Inr df"
    by (cases "reset_index ?df3") (simp_all add: bind_err_def)
  from ty Cons have "ColumnNames_TYPE \<in> set (columns (pd_concat objects))"
    using pd_concat_columns_mem [of o1 objects ColumnNames_TYPE] by simp
  then have "{ColumnNames_TYPE, ColumnNames_SOURCE_TYPE, ColumnNames_RELATIONSHIP_TYPE}
               \<subseteq> set (columns ?df3)" by simp
  with reset_index_columns [OF r]
  have in4: "ColumnNames_TYPE \<in> set (columns df4)" "ColumnNames_SOURCE_TYPE \<in> set (columns df4)"
    "ColumnNames_RELATIONSHIP_TYPE \<in> set (columns df4)" by blast+
  let ?m = "[(ColumnNames_ID, ColumnNames_TARGET), (ColumnNames_TYPE, ColumnNames_TARGET_TYPE)]"
  have "rename_name ?m ColumnNames_TYPE = ColumnNames_TARGET_TYPE"
    and "rename_name ?m ColumnNames_SOURCE_TYPE = ColumnNames_SOURCE_TYPE"
    and "rename_name ?m ColumnNames_RELATIONSHIP_TYPE = ColumnNames_RELATIONSHIP_TYPE"
    by (simp_all add: rename_name_def)
  with in4 have in5: "ColumnNames_TARGET_TYPE \<in> rename_name ?m ` set (columns df4)"
    "ColumnNames_SOURCE_TYPE \<in> rename_name ?m ` set (columns df4)"
    "ColumnNames_RELATIONSHIP_TYPE \<in> rename_name ?m ` set (columns df4)"
    by (metis imageI)+
  from set_index_Inr [OF s] set_index_columns [OF s] in5 have "is_edge_table df"
    by (simp add: is_edge_table_def)
  then show ?thesis ..
qed

lemma fetch_relationships_shape:
  assumes "fetch_relationships be c endpoint_name observable t relationship limit = (c', Inr df)"
  shows "is_edge_table df \<or> df = pd_DataFrame_empty"
proof (cases "limit = 0")
  case True
  with assms show ?thesis by (simp add: fetch_relationships_def)
next
  case False
  with assms obtain rs where
    "bind_err (parse_all rs) (\<lambda>objects. relationships_frame objects observable t relationship)
       = Inr df"
    by (auto simp add: fetch_relationships_def client_iterator_def
        split: option.splits sum.splits)
  then obtain objects where p: "parse_all rs = Inr objects"
    and f: "relationships_frame objects observable t relationship = Inr df"
    by (cases "parse_all rs") (simp_all add: bind_err_def)
  from relationships_frame_shape [OF f parse_all_type_column [OF p]] show ?thesis .
qed

lemma lookup_ioc_relationships_shape:
  assumes "lookup_ioc_relationships be c observable vt_type relationship limit = (c', Inr df)"
  shows "is_edge_table df \<or> df = pd_DataFrame_empty"
proof (cases "VTEntityType_call vt_type")
  case (Inl e)
  with assms show ?thesis by (simp add: lookup_ioc_relationships_def)
next
  case (Inr t)
  note ep = get_endpoint_name_supported [OF Inr]
  show ?thesis
  proof (cases limit)
    case (Some given)
    with assms Inr ep all_supported [of t]
    have "fetch_relationships be c (MAPPING_TYPES_ENDPOINT t) observable t relationship given
            = (c', Inr df)"
      by (simp add: lookup_ioc_relationships_def)
    then show ?thesis by (rule fetch_relationships_shape)
  next
    case None
    obtain c1 response where g: "client_get_object be c (counters_path t observable) = (c1, response)"
      by (cases "client_get_object be c (counters_path t observable)")
    show ?thesis
    proof (cases "relationship_limit response relationship")
      case None': None
      with assms Inr ep all_supported [of t] None g show ?thesis
        by (simp add: lookup_ioc_relationships_def counters_path_def)
    next
      case (Some counted)
      with assms Inr ep all_supported [of t] None g
      have "fetch_relationships be c1 (MAPPING_TYPES_ENDPOINT t) observable t relationship counted
              = (c', Inr df)"
        by (simp add: lookup_ioc_relationships_def counters_path_def)
      then show ?thesis by (rule fetch_relationships_shape)
    qed
  qed
qed


lemma is_edge_table_mock_edges:
  "is_edge_table mock_edges1" "is_edge_table mock_edges2" "is_edge_table mock_edges3"
  by (simp_all add: is_edge_table_def mock_edges1_def mock_edges2_def mock_edges3_def
      edge_table_def)

lemma mock_edges1e3_graph:
  "create_vt_graph mock_client [mock_edges1, pd_DataFrame_empty, mock_edges3] ''g'' True ''gid''
     = Inr (mock_graph13, ''gid'')"
  by code_simp


section \<open>The claims\<close>

text \<open>
  C6. Looking up kind \<^verbatim>\<open>file\<close>, value \<^verbatim>\<open>abc123\<close>, when the backend answers with the
  object \<^verbatim>\<open>abc123\<close> of type \<^verbatim>\<open>file\<close> whose attributes are
  \<^verbatim>\<open>{type_description: "PE32", size: 1024, last_analysis_stats: {malicious: 3, harmless: 60}}\<close>,
  yields a table of exactly one row, keyed by \<^verbatim>\<open>id\<close> with key \<^verbatim>\<open>abc123\<close>, whose
  \<^verbatim>\<open>detections\<close> is 3 (the malicious count) and whose \<^verbatim>\<open>scans\<close> is 63 (the sum
  of all verdict counts).
\<close>

theorem lookup_ioc_file_example:
  assumes "get_object be c ''/files/abc123'' = Some vt_obj"
    and "obj_id vt_obj = ''abc123''" and "obj_type vt_obj = ''file''"
    and "attributes vt_obj = Some mock_attributes"
  shows "\<exists>df r. snd (lookup_ioc be c (Str ''abc123'') (Str ''file'')) = Inr df
           \<and> index_names df = [ColumnNames_ID] \<and> rows df = [r]
           \<and> cell r ColumnNames_ID = Str ''abc123''
           \<and> cell r ColumnNames_DETECTIONS = Num 3
           \<and> cell r ColumnNames_SCANS = Num 63"
  using assms(1) parse_mock_attributes [OF assms(2-4)]
  by (simp add: lookup_ioc_def supported_vt_types_def SUPPORTED_VT_TYPES_def get_endpoint_name_def
      bind_err_def client_get_object_def cell_def)

theorem lookup_ioc_file_example_witness:
  "\<exists>df r. snd (lookup_ioc mock_backend mock_client (Str ''abc123'') (Str ''file'')) = Inr df
           \<and> index_names df = [ColumnNames_ID] \<and> rows df = [r]
           \<and> cell r ColumnNames_ID = Str ''abc123''
           \<and> cell r ColumnNames_DETECTIONS = Num 3
           \<and> cell r ColumnNames_SCANS = Num 63"
  using lookup_ioc_file_example [of mock_backend mock_client mock_object]
  by (simp add: mock_backend_def mock_object_def)

text \<open>
  C4. For every kind value outside the closed enumeration (neither one of the four value
  strings nor a member), the endpoint resolver, \<^verbatim>\<open>lookup_ioc\<close> and
  \<^verbatim>\<open>lookup_ioc_relationships\<close> fail with the error the enumeration raises for a
  value it does not know, and the client is returned as it was: no request has been
  issued.
\<close>

theorem unsupported_kind_fails_before_request:
  assumes "vt_type \<notin> {Str ''file'', Str ''domain'', Str ''ip_address'', Str ''url''}"
    and "\<forall>m. vt_type \<noteq> Member m"
  shows "get_endpoint_name vt_type = Inl (ValueError ''not a valid VTEntityType'')
       \<and> lookup_ioc be c observable vt_type = (c, Inl (ValueError ''not a valid VTEntityType''))
       \<and> lookup_ioc_relationships be c observable vt_type relationship limit
           = (c, Inl (ValueError ''not a valid VTEntityType''))"
  using VTEntityType_call_outside [OF assms]
  by (simp add: get_endpoint_name_def bind_err_def lookup_ioc_def lookup_ioc_relationships_def)

theorem unsupported_kind_fails_before_request_witness:
  "get_endpoint_name (Str ''bogus'') = Inl (ValueError ''not a valid VTEntityType'')
   \<and> lookup_ioc mock_backend mock_client (Str ''abc123'') (Str ''bogus'')
       = (mock_client, Inl (ValueError ''not a valid VTEntityType''))
   \<and> lookup_ioc_relationships mock_backend mock_client (Str ''abc123'') (Str ''bogus'')
         ''contacted_domains'' None
       = (mock_client, Inl (ValueError ''not a valid VTEntityType''))"
  using unsupported_kind_fails_before_request
          [of "Str ''bogus''" mock_backend mock_client "Str ''abc123''" "''contacted_domains''" None]
  by simp

text \<open>
  C9. For every indicator with a supported kind, \<^verbatim>\<open>lookup_ioc_relationships\<close> called
  with limit 0 returns the empty table and leaves the client as it was: no paging request
  (and no other request) has been issued.
\<close>

theorem limit_zero_returns_empty_without_request:
  assumes "VTEntityType_call vt_type = Inr t"
  shows "lookup_ioc_relationships be c observable vt_type relationship (Some 0)
           = (c, Inr pd_DataFrame_empty)"
  using assms get_endpoint_name_supported [OF assms] all_supported [of t]
  by (simp add: lookup_ioc_relationships_def fetch_relationships_def)

theorem limit_zero_returns_empty_without_request_witness:
  "VTEntityType_call (Str ''file'') = Inr FILE
   \<and> lookup_ioc_relationships mock_backend mock_client (Str ''abc123'') (Str ''file'')
        ''contacted_domains'' (Some 0) = (mock_client, Inr pd_DataFrame_empty)"
  using limit_zero_returns_empty_without_request
          [of "Str ''file''" FILE mock_backend mock_client "Str ''abc123''" "''contacted_domains''"]
  by simp

text \<open>
  C7. For every indicator (a value with a supported kind), when
  \<^verbatim>\<open>lookup_ioc_relationships\<close> is called without a limit and the metadata fetch fails,
  or the fetched object's relationship metadata cannot be read, or the named relationship
  is absent from it, the operation returns the empty table and raises nothing.
\<close>

theorem no_limit_absent_relationship_returns_empty:
  assumes "VTEntityType_call vt_type = Inr t"
    and "get_object be c (counters_path t observable) = None
         \<or> (\<exists>vt_obj. get_object be c (counters_path t observable) = Some vt_obj
              \<and> (relationships vt_obj = None
                 \<or> (\<exists>rels. relationships vt_obj = Some rels \<and> map_of rels relationship = None)))"
  shows "snd (lookup_ioc_relationships be c observable vt_type relationship None)
           = Inr pd_DataFrame_empty"
  using assms(2) assms(1) get_endpoint_name_supported [OF assms(1)] all_supported [of t]
  by (auto simp add: lookup_ioc_relationships_def fetch_relationships_def
      relationship_limit_def client_get_object_def counters_path_def)

theorem no_limit_absent_relationship_returns_empty_witness:
  "snd (lookup_ioc_relationships mock_backend mock_client (Str ''ffff'') (Str ''file'')
          ''contacted_domains'' None) = Inr pd_DataFrame_empty
   \<and> snd (lookup_ioc_relationships mock_backend mock_client (Str ''abc123'') (Str ''file'')
          ''contacted_ips'' None) = Inr pd_DataFrame_empty"
  using no_limit_absent_relationship_returns_empty
          [of "Str ''file''" FILE mock_backend mock_client "Str ''ffff''" "''contacted_domains''"]
        no_limit_absent_relationship_returns_empty
          [of "Str ''file''" FILE mock_backend mock_client "Str ''abc123''" "''contacted_ips''"]
  by (simp add: mock_backend_def mock_object_def counters_path_def)

text \<open>
  C10. For every fetched object whose attribute map is present but lacks
  \<^verbatim>\<open>last_analysis_stats\<close>, \<^verbatim>\<open>_parse_vt_object\<close> raises; so \<^verbatim>\<open>lookup_ioc\<close>, for a
  supported kind and a fetch that succeeded with such an object, fails with the generic
  error: the result carries no table, the basic attributes that were present are not
  returned.
\<close>

theorem missing_stats_fails_lookup:
  assumes "attributes vt_obj = Some attrs" and "map_of attrs LAST_ANALYSIS_STATS = None"
  shows "(\<exists>e. parse_vt_object vt_obj = Inl e)
       \<and> (VTEntityType_call vt_type = Inr t \<and> get_object be c (object_path t observable) = Some vt_obj
            \<longrightarrow> snd (lookup_ioc be c observable vt_type) = Inl (Exception no_data_msg))"
  using parse_vt_object_no_stats [OF assms] all_supported [of t]
  by (auto simp add: lookup_ioc_def client_get_object_def object_path_def split: sum.splits)

theorem missing_stats_fails_lookup_witness:
  "(\<exists>e. parse_vt_object mock_object_no_stats = Inl e)
   \<and> snd (lookup_ioc mock_backend_no_stats mock_client (Str ''abc123'') (Str ''file''))
       = Inl (Exception no_data_msg)"
  using missing_stats_fails_lookup
    [of mock_object_no_stats "[(''type_description'', JStr ''PE32''), (''size'', JNum 1024)]"
        "Str ''file''" FILE mock_backend_no_stats mock_client "Str ''abc123''"]
  by (simp add: mock_object_no_stats_def mock_backend_no_stats_def)

text \<open>
  C8, as the code has it. \<^verbatim>\<open>lookup_iocs\<close> first resets the index of the input table
  into columns. When that succeeds and the configured value column or the configured kind
  column is missing from the resulting table, \<^verbatim>\<open>lookup_iocs\<close> fails with the
  \<open>KeyError\<close> that names a missing column. When the index cannot be reset, it fails with
  the error of \<^verbatim>\<open>reset_index\<close>. In both cases the client is returned as it was: the
  loop has not begun and no lookup has been made.
\<close>

theorem missing_column_fails_before_lookups:
  "(reset_index observables_df = Inr df'
      \<and> (observable_column \<notin> set (columns df') \<or> observable_type_column \<notin> set (columns df'))
     \<longrightarrow> (\<exists>column. column \<in> {observable_column, observable_type_column}
           \<and> column \<notin> set (columns df')
           \<and> lookup_iocs be c observables_df observable_column observable_type_column
               = (c, Inl (KeyError (column_not_found_msg column)))))
   \<and> (reset_index observables_df = Inl e
     \<longrightarrow> lookup_iocs be c observables_df observable_column observable_type_column = (c, Inl e))"
  by (auto simp add: lookup_iocs_def)

theorem missing_column_fails_before_lookups_witness:
  "(\<exists>column. column \<in> {''value'', ColumnNames_TARGET_TYPE}
           \<and> lookup_iocs mock_backend mock_client mock_table ''value'' ColumnNames_TARGET_TYPE
               = (mock_client, Inl (KeyError (column_not_found_msg column))))
   \<and> (\<exists>e. reset_index mock_table_index_clash = Inl e
         \<and> lookup_iocs mock_backend mock_client mock_table_index_clash ''value''
              ColumnNames_TARGET_TYPE = (mock_client, Inl e))"
proof -
  have "\<exists>df'. reset_index mock_table = Inr df' \<and> ''value'' \<notin> set (columns df')"
    by (simp add: mock_table_def reset_index_def Let_def)
  then obtain df' where "reset_index mock_table = Inr df'" and "''value'' \<notin> set (columns df')"
    by blast
  with missing_column_fails_before_lookups
         [of mock_table df' "''value''" ColumnNames_TARGET_TYPE mock_backend mock_client]
  have a: "\<exists>column. column \<in> {''value'', ColumnNames_TARGET_TYPE}
           \<and> lookup_iocs mock_backend mock_client mock_table ''value'' ColumnNames_TARGET_TYPE
               = (mock_client, Inl (KeyError (column_not_found_msg column)))"
    by auto
  have "\<exists>e. reset_index mock_table_index_clash = Inl e"
    by (simp add: mock_table_index_clash_def mock_table_def reset_index_def)
  then obtain e where e: "reset_index mock_table_index_clash = Inl e" by blast
  with missing_column_fails_before_lookups
         [of mock_table_index_clash _ "''value''" ColumnNames_TARGET_TYPE mock_backend mock_client e]
  have "lookup_iocs mock_backend mock_client mock_table_index_clash ''value''
              ColumnNames_TARGET_TYPE = (mock_client, Inl e)"
    by blast
  with a e show ?thesis by blast
qed

text \<open>
  C8, as stated, fails for a table without the configured columns whose index cannot be
  reset: the table with the default index and the columns \<^verbatim>\<open>index\<close> and \<^verbatim>\<open>level_0\<close>
  lacks \<^verbatim>\<open>target\<close> and \<^verbatim>\<open>target_type\<close>, and \<^verbatim>\<open>lookup_iocs\<close> fails on it with the
  \<open>ValueError\<close> of \<^verbatim>\<open>reset_index\<close>, not with the \<open>KeyError\<close> of a missing column.
\<close>

theorem lookup_iocs_missing_columns_reset_raises:
  "ColumnNames_TARGET \<notin> set (columns mock_table_no_columns)
   \<and> ColumnNames_TARGET_TYPE \<notin> set (columns mock_table_no_columns)
   \<and> lookup_iocs mock_backend mock_client mock_table_no_columns
         ColumnNames_TARGET ColumnNames_TARGET_TYPE
       = (mock_client, Inl (ValueError ''cannot insert, already exists''))"
  by (simp add: lookup_iocs_def reset_index_def mock_table_no_columns_def)

text \<open>
  C5, as the code has it. For every input table of N indicators whose index resets into
  columns and which then has the two configured columns, \<^verbatim>\<open>lookup_iocs\<close> returns (it
  never aborts on a failing row), and the table it returns has exactly N rows in the order
  of the input: row \<open>i\<close> is the one row of the record that \<^verbatim>\<open>lookup_ioc\<close> returned for
  indicator \<open>i\<close>, or, when that lookup failed, the stub row that carries only the
  identifier and the kind of indicator \<open>i\<close>. The lookup of indicator \<open>i\<close> runs on the
  client as the first \<open>i\<close> rows left it. So M failing lookups give M stubs and N - M
  records.
\<close>

theorem lookup_iocs_one_row_per_indicator:
  assumes "reset_index observables_df = Inr df'"
    and "observable_column \<in> set (columns df')"
    and "observable_type_column \<in> set (columns df')"
    and "items = zip (column_values df' observable_column)
                     (column_values df' observable_type_column)"
  shows "\<exists>c' out.
           lookup_iocs be c observables_df observable_column observable_type_column = (c', Inr out)
         \<and> length (rows out) = length (rows observables_df)
         \<and> (\<forall>i < length (rows observables_df).
               case lookup_ioc be (fst (lookup_iocs_loop be (c, []) (take i items)))
                      (fst (items ! i)) (snd (items ! i)) of
                 (c'', Inr df) \<Rightarrow> rows df = [rows out ! i]
               | (c'', Inl e) \<Rightarrow>
                   rows out ! i = [(ColumnNames_ID, fst (items ! i)),
                                   (ColumnNames_TYPE, snd (items ! i))])"
proof -
  have len_items: "length items = length (rows observables_df)"
    using assms(4) rows_reset_index [OF assms(1)] by (simp add: column_values_def)
  obtain c' dfs where loop: "lookup_iocs_loop be (c, []) items = (c', dfs)"
    by (cases "lookup_iocs_loop be (c, []) items")
  from lookup_iocs_loop_extends [of be c "[]" items] loop
  have len_dfs: "length dfs = length items" and single: "\<forall>f \<in> set dfs. length (rows f) = 1"
    by auto
  define out where "out = (if length dfs > 0 then pd_concat dfs else pd_DataFrame_empty)"
  have res: "lookup_iocs be c observables_df observable_column observable_type_column
               = (c', Inr out)"
    using assms(1-3) loop by (simp add: lookup_iocs_def assms(4) out_def)
  have rows_out: "rows out = concat (map rows dfs)"
    by (cases dfs) (simp_all add: out_def pd_DataFrame_empty_def)
  from concat_single_rows [OF single] rows_out
  have len_out: "length (rows out) = length dfs"
    and nth_out: "\<forall>i < length dfs. rows (dfs ! i) = [rows out ! i]"
    by simp_all
  have "case lookup_ioc be (fst (lookup_iocs_loop be (c, []) (take i items)))
                (fst (items ! i)) (snd (items ! i)) of
          (c'', Inr df) \<Rightarrow> rows df = [rows out ! i]
        | (c'', Inl e) \<Rightarrow>
            rows out ! i = [(ColumnNames_ID, fst (items ! i)), (ColumnNames_TYPE, snd (items ! i))]"
    if i: "i < length items" for i
  proof -
    obtain ci dfsi where si: "lookup_iocs_loop be (c, []) (take i items) = (ci, dfsi)"
      by (cases "lookup_iocs_loop be (c, []) (take i items)")
    from lookup_iocs_loop_nth [OF i, of be c] si loop obtain c1 where
      st: "lookup_iocs_step be (ci, dfsi) (items ! i) = (c1, dfsi @ [dfs ! i])"
      by auto
    from nth_out i len_dfs have r: "rows (dfs ! i) = [rows out ! i]" by simp
    from lookup_iocs_step_shape [of be ci dfsi "items ! i"] st
    have "case lookup_ioc be ci (fst (items ! i)) (snd (items ! i)) of
            (c'', Inr df) \<Rightarrow> dfs ! i = df
          | (c'', Inl e) \<Rightarrow> dfs ! i = stub_frame (fst (items ! i)) (snd (items ! i))"
      by (auto split: prod.splits sum.splits)
    with r si show ?thesis
      by (auto simp add: stub_frame_eq split: prod.splits sum.splits)
  qed
  with res len_out len_dfs len_items show ?thesis by auto
qed


theorem lookup_iocs_one_row_per_indicator_witness:
  "\<exists>c' out.
      lookup_iocs mock_backend mock_client mock_table ColumnNames_TARGET ColumnNames_TARGET_TYPE
        = (c', Inr out)
    \<and> length (rows out) = 2
    \<and> cell (rows out ! 0) ColumnNames_DETECTIONS = Num 3
    \<and> rows out ! 1 = [(ColumnNames_ID, Str ''ffff''), (ColumnNames_TYPE, Str ''file'')]"
proof -
  define items where "items = [(Str ''abc123'', Str ''file''), (Str ''ffff'', Str ''file'')]"
  have "\<exists>df'. reset_index mock_table = Inr df'
          \<and> ColumnNames_TARGET \<in> set (columns df') \<and> ColumnNames_TARGET_TYPE \<in> set (columns df')
          \<and> items = zip (column_values df' ColumnNames_TARGET)
                         (column_values df' ColumnNames_TARGET_TYPE)"
    by (simp add: mock_table_def reset_index_def Let_def column_values_def cell_def items_def)
  then obtain df' where "reset_index mock_table = Inr df'"
    and "ColumnNames_TARGET \<in> set (columns df')"
    and "ColumnNames_TARGET_TYPE \<in> set (columns df')"
    and "items = zip (column_values df' ColumnNames_TARGET)
                     (column_values df' ColumnNames_TARGET_TYPE)"
    by blast
  from lookup_iocs_one_row_per_indicator [OF this, of mock_backend mock_client]
  obtain c' out where
    res: "lookup_iocs mock_backend mock_client mock_table ColumnNames_TARGET
            ColumnNames_TARGET_TYPE = (c', Inr out)"
    and len: "length (rows out) = length (rows mock_table)"
    and each: "\<forall>i < length (rows mock_table).
               case lookup_ioc mock_backend
                      (fst (lookup_iocs_loop mock_backend (mock_client, []) (take i items)))
                      (fst (items ! i)) (snd (items ! i)) of
                 (c'', Inr df) \<Rightarrow> rows df = [rows out ! i]
               | (c'', Inl e) \<Rightarrow>
                   rows out ! i = [(ColumnNames_ID, fst (items ! i)),
                                   (ColumnNames_TYPE, snd (items ! i))]"
    by blast
  from each have "rows out ! 0 =
      [(''type_description'', Str ''PE32''), (''size'', Num 1024),
       (ColumnNames_DETECTIONS, Num 3), (ColumnNames_SCANS, Num 63),
       (ColumnNames_ID, Str ''abc123''), (ColumnNames_TYPE, Str ''file'')]"
    by (auto simp add: mock_table_def items_def lookup_ioc_mock_known dest!: spec [of _ 0])
  then have "cell (rows out ! 0) ColumnNames_DETECTIONS = Num 3"
    by (simp add: cell_def)
  moreover from each
  have "rows out ! 1 = [(ColumnNames_ID, Str ''ffff''), (ColumnNames_TYPE, Str ''file'')]"
    by (auto simp add: mock_table_def items_def lookup_ioc_mock_known lookup_ioc_mock_unknown
        lookup_iocs_step_def dest!: spec [of _ 1])
  ultimately show ?thesis
    using res len by (simp add: mock_table_def)
qed

text \<open>
  C5, as stated, fails for a table whose index cannot be reset: the table of two
  indicators that has both configured columns and an index level named \<^verbatim>\<open>target\<close>
  like its column. \<^verbatim>\<open>lookup_iocs\<close> fails on it with the \<open>ValueError\<close> of
  \<^verbatim>\<open>reset_index\<close>, before the loop, and returns no row.
\<close>

theorem lookup_iocs_index_named_like_column_raises:
  "ColumnNames_TARGET \<in> set (columns mock_table_index_clash)
   \<and> ColumnNames_TARGET_TYPE \<in> set (columns mock_table_index_clash)
   \<and> length (rows mock_table_index_clash) = 2
   \<and> lookup_iocs mock_backend mock_client mock_table_index_clash
         ColumnNames_TARGET ColumnNames_TARGET_TYPE
       = (mock_client, Inl (ValueError ''cannot insert, already exists''))"
  by (simp add: lookup_iocs_def reset_index_def mock_table_index_clash_def mock_table_def)

text \<open>
  C2, as the code has it. A call to \<^verbatim>\<open>lookup_ioc\<close> with a kind of the enumeration
  leaves the connection closed, whether the fetch and the parsing succeed or fail. No
  operation reopens a closed connection: \<^verbatim>\<open>lookup_ioc\<close>, \<^verbatim>\<open>lookup_ioc_relationships\<close>
  and \<^verbatim>\<open>lookup_iocs\<close> started on a closed connection end on a closed connection.
  Consequently, in the loop of \<^verbatim>\<open>lookup_iocs\<close>, every per-row lookup that comes after
  a row with a supported kind runs on a closed connection: the lookup of row \<open>i\<close> runs on
  the client as the first \<open>i\<close> rows left it, and that client is closed as soon as some
  row \<open>j < i\<close> has a supported kind.
\<close>

theorem lookup_ioc_closes_for_supported_kind:
  "(VTEntityType_call vt_type = Inr t \<longrightarrow> closed (fst (lookup_ioc be c observable vt_type)))
   \<and> (closed c \<longrightarrow>
        closed (fst (lookup_ioc be c observable vt_type))
      \<and> closed (fst (lookup_ioc_relationships be c observable vt_type relationship limit))
      \<and> closed (fst (lookup_iocs be c observables_df observable_column observable_type_column)))
   \<and> (j < i \<and> i \<le> length items \<and> VTEntityType_call (snd (items ! j)) = Inr t'
        \<longrightarrow> closed (fst (lookup_iocs_loop be (c, []) (take i items))))"
proof (intro conjI impI)
  assume "VTEntityType_call vt_type = Inr t"
  then show "closed (fst (lookup_ioc be c observable vt_type))"
    by (rule lookup_ioc_closes)
next
  assume "closed c"
  then show "closed (fst (lookup_ioc be c observable vt_type))"
    by (rule lookup_ioc_closed_mono)
next
  assume "closed c"
  then show "closed (fst (lookup_ioc_relationships be c observable vt_type relationship limit))"
    by (rule lookup_ioc_relationships_closed_mono)
next
  assume "closed c"
  then show "closed (fst (lookup_iocs be c observables_df observable_column
                            observable_type_column))"
    by (rule lookup_iocs_closed_mono)
next
  assume "j < i \<and> i \<le> length items \<and> VTEntityType_call (snd (items ! j)) = Inr t'"
  then show "closed (fst (lookup_iocs_loop be (c, []) (take i items)))"
    using lookup_iocs_loop_closed_after [of j i items t' be "(c, [])"] by simp
qed

theorem lookup_ioc_closes_for_supported_kind_witness:
  "closed (fst (lookup_ioc mock_backend mock_client (Str ''ffff'') (Str ''file'')))
   \<and> closed (fst (lookup_iocs_loop mock_backend (mock_client, [])
        (take 1 [(Str ''abc123'', Str ''file''), (Str ''ffff'', Str ''file'')])))
   \<and> closed (fst (lookup_ioc mock_backend (mock_client\<lparr>closed := True\<rparr>)
                    (Str ''abc123'') (Str ''bogus'')))
   \<and> closed (fst (lookup_ioc_relationships mock_backend (mock_client\<lparr>closed := True\<rparr>)
                    (Str ''abc123'') (Str ''bogus'') ''contacted_domains'' None))
   \<and> closed (fst (lookup_iocs mock_backend (mock_client\<lparr>closed := True\<rparr>) mock_table
                    ColumnNames_TARGET ColumnNames_TARGET_TYPE))"
  using lookup_ioc_closes_for_supported_kind
    [of "Str ''file''" FILE mock_backend mock_client "Str ''ffff''" "''contacted_domains''" None
        mock_table ColumnNames_TARGET ColumnNames_TARGET_TYPE 0 1
        "[(Str ''abc123'', Str ''file''), (Str ''ffff'', Str ''file'')]" FILE]
    lookup_ioc_closes_for_supported_kind
    [of "Str ''bogus''" FILE mock_backend "mock_client\<lparr>closed := True\<rparr>" "Str ''abc123''"
        "''contacted_domains''" None
        mock_table ColumnNames_TARGET ColumnNames_TARGET_TYPE 0 1
        "[(Str ''abc123'', Str ''file''), (Str ''ffff'', Str ''file'')]" FILE]
  by simp

text \<open>
  C2, as stated, fails for a call that fails on its kind: the kind is checked before the
  \<^verbatim>\<open>try\<close>, so the \<^verbatim>\<open>finally\<close> that closes the connection is never entered. On a
  fresh client, \<^verbatim>\<open>lookup_ioc\<close> of kind \<^verbatim>\<open>bogus\<close> leaves the connection open, and in
  \<^verbatim>\<open>lookup_iocs\<close> over the two rows (\<^verbatim>\<open>abc123\<close>, \<^verbatim>\<open>bogus\<close>), (\<^verbatim>\<open>abc123\<close>,
  \<^verbatim>\<open>file\<close>) the lookup of the second row starts on an open connection.
\<close>

theorem lookup_ioc_unsupported_kind_leaves_connection_open:
  "\<not> closed mock_client
   \<and> \<not> closed (fst (lookup_ioc mock_backend mock_client (Str ''abc123'') (Str ''bogus'')))
   \<and> zip (column_values mock_table_bad_kind ColumnNames_TARGET)
          (column_values mock_table_bad_kind ColumnNames_TARGET_TYPE)
       = [(Str ''abc123'', Str ''bogus''), (Str ''abc123'', Str ''file'')]
   \<and> \<not> closed (fst (lookup_iocs_loop mock_backend (mock_client, [])
          (take 1 [(Str ''abc123'', Str ''bogus''), (Str ''abc123'', Str ''file'')])))"
  by (simp add: lookup_ioc_mock_bogus lookup_iocs_step_def mock_client_def init_def
      mock_table_bad_kind_def column_values_def cell_def)

text \<open>
  C3 at its failing inputs. On a fresh client, \<^verbatim>\<open>lookup_ioc_relationships\<close> without a
  limit returns the empty table with the connection still open when the metadata fetch
  fails (indicator \<^verbatim>\<open>ffff\<close>) and when the relationship is absent from the metadata
  (resolved limit 0); with limit 0 it returns the empty table with the client untouched.
  \<^verbatim>\<open>lookup_ioc\<close>, on the same failing fetch, closes the connection.
\<close>

theorem relationships_early_return_leaves_connection_open:
  "lookup_ioc_relationships mock_backend mock_client (Str ''ffff'') (Str ''file'')
      ''contacted_domains'' None
     = (mock_client\<lparr>requests := [GetObject ''/files/ffff?relationship_counters=true'']\<rparr>,
        Inr pd_DataFrame_empty)
   \<and> lookup_ioc_relationships mock_backend mock_client (Str ''abc123'') (Str ''file'')
      ''contacted_ips'' None
     = (mock_client\<lparr>requests := [GetObject ''/files/abc123?relationship_counters=true'']\<rparr>,
        Inr pd_DataFrame_empty)
   \<and> lookup_ioc_relationships mock_backend mock_client (Str ''abc123'') (Str ''file'')
      ''contacted_domains'' (Some 0)
     = (mock_client, Inr pd_DataFrame_empty)
   \<and> \<not> closed mock_client
   \<and> \<not> closed (mock_client\<lparr>requests := [GetObject ''/files/ffff?relationship_counters=true'']\<rparr>)
   \<and> closed (fst (lookup_ioc mock_backend mock_client (Str ''ffff'') (Str ''file'')))"
  by (simp add: lookup_ioc_relationships_def all_supported get_endpoint_name_supported
      client_get_object_def relationship_limit_def fetch_relationships_def
      mock_backend_def mock_object_def mock_client_def init_def lookup_ioc_def client_close_def)

text \<open>
  C1, as the code has it. For every list of edge tables as \<^verbatim>\<open>lookup_ioc_relationships\<close>
  returns them (tables keyed by (source, target), or empty frames, with at least one table
  of the first sort), \<^verbatim>\<open>create_vt_graph\<close> returns the graph identifier. Whenever it
  returns, the nodes it has passed to the graph service are the distinct source identifiers,
  sorted, each with the first kind seen for it as a source, followed by the distinct target
  identifiers, sorted, each with the first kind seen for it as a target. Each of the two
  lists is free of duplicates, and the two are concatenated, not united: an identifier is
  passed once when the edge tables have it only as a source or only as a target, and twice
  when they have it both as a source and as a target.
\<close>

theorem create_vt_graph_node_list:
  "((\<forall>df \<in> set relationship_dfs. is_edge_table df \<or> df = pd_DataFrame_empty)
      \<and> (\<exists>df \<in> set relationship_dfs. is_edge_table df)
     \<longrightarrow> (\<exists>g' concatenated_df'.
            create_vt_graph c relationship_dfs graph_name private graph_id = Inr (g', graph_id)
          \<and> reset_index (pd_concat relationship_dfs) = Inr concatenated_df'
          \<and> rows concatenated_df' = concat (map rows relationship_dfs)))
   \<and> (create_vt_graph c relationship_dfs graph_name private graph_id = Inr (g, gid)
      \<and> reset_index (pd_concat relationship_dfs) = Inr concatenated_df
     \<longrightarrow> added_nodes g
           = map (\<lambda>k. (k, first_seen concatenated_df ColumnNames_SOURCE ColumnNames_SOURCE_TYPE k))
               (group_keys concatenated_df ColumnNames_SOURCE)
           @ map (\<lambda>k. (k, first_seen concatenated_df ColumnNames_TARGET ColumnNames_TARGET_TYPE k))
               (group_keys concatenated_df ColumnNames_TARGET)
       \<and> distinct (group_keys concatenated_df ColumnNames_SOURCE)
       \<and> distinct (group_keys concatenated_df ColumnNames_TARGET)
       \<and> set (group_keys concatenated_df ColumnNames_SOURCE)
           = set (column_values concatenated_df ColumnNames_SOURCE) - {NaN}
       \<and> set (group_keys concatenated_df ColumnNames_TARGET)
           = set (column_values concatenated_df ColumnNames_TARGET) - {NaN}
       \<and> (\<forall>x. count_list (added_node_ids g) x
           = (if x \<in> set (column_values concatenated_df ColumnNames_SOURCE) - {NaN} then 1 else 0)
           + (if x \<in> set (column_values concatenated_df ColumnNames_TARGET) - {NaN} then 1 else 0)))"
proof (intro conjI impI)
  assume "(\<forall>df \<in> set relationship_dfs. is_edge_table df \<or> df = pd_DataFrame_empty)
      \<and> (\<exists>df \<in> set relationship_dfs. is_edge_table df)"
  then show "\<exists>g' concatenated_df'.
            create_vt_graph c relationship_dfs graph_name private graph_id = Inr (g', graph_id)
          \<and> reset_index (pd_concat relationship_dfs) = Inr concatenated_df'
          \<and> rows concatenated_df' = concat (map rows relationship_dfs)"
    using create_vt_graph_edge_tables by blast
next
  assume a: "create_vt_graph c relationship_dfs graph_name private graph_id = Inr (g, gid)
      \<and> reset_index (pd_concat relationship_dfs) = Inr concatenated_df"
  then obtain g1 g2 where
    g1: "groupby_first concatenated_df ColumnNames_SOURCE ColumnNames_SOURCE_TYPE = Inr g1"
    and g2: "groupby_first concatenated_df ColumnNames_TARGET ColumnNames_TARGET_TYPE = Inr g2"
    and g: "added_nodes g =
       map (\<lambda>r. (cell r ColumnNames_ID, cell r ColumnNames_TYPE))
         (rows (rename_columns g1 [(ColumnNames_SOURCE, ColumnNames_ID),
                                   (ColumnNames_SOURCE_TYPE, ColumnNames_TYPE)]))
       @ map (\<lambda>r. (cell r ColumnNames_ID, cell r ColumnNames_TYPE))
         (rows (rename_columns g2 [(ColumnNames_TARGET, ColumnNames_ID),
                                   (ColumnNames_TARGET_TYPE, ColumnNames_TYPE)]))"
    by (auto simp add: create_vt_graph_def bind_err_def Let_def split: sum.splits if_splits)
  show nodes: "added_nodes g
           = map (\<lambda>k. (k, first_seen concatenated_df ColumnNames_SOURCE ColumnNames_SOURCE_TYPE k))
               (group_keys concatenated_df ColumnNames_SOURCE)
           @ map (\<lambda>k. (k, first_seen concatenated_df ColumnNames_TARGET ColumnNames_TARGET_TYPE k))
               (group_keys concatenated_df ColumnNames_TARGET)"
    unfolding g using groupby_first_nodes [OF g1, of ColumnNames_ID ColumnNames_TYPE]
      groupby_first_nodes [OF g2, of ColumnNames_ID ColumnNames_TYPE]
    by simp
  show "distinct (group_keys concatenated_df ColumnNames_SOURCE)"
    and "distinct (group_keys concatenated_df ColumnNames_TARGET)"
    by (rule group_keys_distinct)+
  show "set (group_keys concatenated_df ColumnNames_SOURCE)
           = set (column_values concatenated_df ColumnNames_SOURCE) - {NaN}"
    and "set (group_keys concatenated_df ColumnNames_TARGET)
           = set (column_values concatenated_df ColumnNames_TARGET) - {NaN}"
    by (rule group_keys_set)+
  have ids: "added_node_ids g = group_keys concatenated_df ColumnNames_SOURCE
                                @ group_keys concatenated_df ColumnNames_TARGET"
    unfolding added_node_ids_added_nodes nodes by (simp add: comp_def)
  show "\<forall>x. count_list (added_node_ids g) x
           = (if x \<in> set (column_values concatenated_df ColumnNames_SOURCE) - {NaN} then 1 else 0)
           + (if x \<in> set (column_values concatenated_df ColumnNames_TARGET) - {NaN} then 1 else 0)"
    unfolding ids
    by (simp only: count_list_append count_list_distinct [OF group_keys_distinct] group_keys_set
        simp_thms)
qed

theorem create_vt_graph_node_list_witness:
  "create_vt_graph mock_client [mock_edges1, pd_DataFrame_empty, mock_edges3] ''g'' True ''gid''
     = Inr (mock_graph13, ''gid'')
   \<and> added_nodes mock_graph13
       = [(Str ''abc123'', Str ''file'')]
         @ [(Str ''evil.example'', Str ''domain''), (Str ''other.example'', Str ''domain'')]
   \<and> count_list (added_node_ids mock_graph13) (Str ''abc123'') = 1"
proof -
  let ?dfs = "[mock_edges1, pd_DataFrame_empty, mock_edges3]"
  have wf: "(\<forall>df \<in> set ?dfs. is_edge_table df \<or> df = pd_DataFrame_empty)
            \<and> (\<exists>df \<in> set ?dfs. is_edge_table df)"
    by (simp add: is_edge_table_mock_edges)
  from create_vt_graph_node_list [of ?dfs mock_client "''g''" True "''gid''"] wf
  obtain g' cdf where
    g': "create_vt_graph mock_client ?dfs ''g'' True ''gid'' = Inr (g', ''gid'')"
    and r: "reset_index (pd_concat ?dfs) = Inr cdf"
    and rows: "rows cdf = concat (map rows ?dfs)"
    by blast
  from g' mock_edges1e3_graph have eq: "g' = mock_graph13" by simp
  have s: "column_values cdf ColumnNames_SOURCE = [Str ''abc123'', Str ''abc123'']"
    and t: "column_values cdf ColumnNames_TARGET = [Str ''evil.example'', Str ''other.example'']"
    by (simp_all add: column_values_def rows mock_edges1_def mock_edges3_def edge_table_def
        edge_row_def cell_def pd_DataFrame_empty_def)
  from create_vt_graph_node_list [of ?dfs mock_client "''g''" True "''gid''" mock_graph13 "''gid''" cdf]
    mock_edges1e3_graph r
  have "\<forall>x. count_list (added_node_ids mock_graph13) x
      = (if x \<in> set [Str ''abc123'', Str ''abc123''] - {NaN} then 1 else 0)
      + (if x \<in> set [Str ''evil.example'', Str ''other.example''] - {NaN} then 1 else 0)"
    unfolding s t by blast
  then have "count_list (added_node_ids mock_graph13) (Str ''abc123'') = 1"
    by simp
  with mock_edges1e3_graph show ?thesis
    by (simp add: mock_graph13_def)
qed

text \<open>
  C1, as stated, fails when the shared node is the target of one table and the source of
  the other: for the edge tables \<^verbatim>\<open>abc123 -> evil.example\<close> and
  \<^verbatim>\<open>evil.example -> 10.0.0.1\<close>, where \<^verbatim>\<open>evil.example\<close> is a domain in both, the node
  \<^verbatim>\<open>evil.example\<close> is added twice.
\<close>

theorem create_vt_graph_shared_node_added_twice:
  "create_vt_graph mock_client [mock_edges1, mock_edges2] ''g'' True ''gid''
     = Inr (mock_graph12, ''gid'')
   \<and> added_node_ids mock_graph12
       = [Str ''abc123'', Str ''evil.example'', Str ''10.0.0.1'', Str ''evil.example'']
   \<and> count_list (added_node_ids mock_graph12) (Str ''evil.example'') = 2"
  by (simp add: mock_edges12_graph) (simp add: mock_graph12_def)

end
